theory Spec2Isabelle
  imports Complex_Main "HOL-Library.AList"
begin

section \<open>The packaging manifest\<close>

text \<open>
  The first source document is the \<^verbatim>\<open>MANIFEST.in\<close> template of the source distribution.
  It is kept as the list of its lines, in file order; line 27 is blank.
\<close>

definition manifest_lines :: "string list" where
  "manifest_lines =
    [''include README* CREDITS COPYING.txt CITATION  setupext.py CONTRIBUTING.rst'',
     ''include yt/visualization/mapserver/html/map.js'',
     ''include yt/visualization/mapserver/html/map_index.html'',
     ''include yt/visualization/mapserver/html/Leaflet.Coordinates-0.1.5.css'',
     ''include yt/visualization/mapserver/html/Leaflet.Coordinates-0.1.5.src.js'',
     ''include yt/utilities/tests/cosmology_answers.yml'',
     ''include yt/utilities/mesh_types.yaml'',
     ''exclude scripts/pr_backport.py'',
     ''exclude yt/utilities/lib/cykdtree/c_kdtree.cpp'',
     ''prune docker'',
     ''prune tests'',
     ''prune answer-store'',
     ''recursive-include yt *.py *.pyx *.pxi *.pxd *.h *.hpp README* *.txt LICENSE* *.cu'',
     ''recursive-include doc *.rst *.txt *.py *.ipynb *.png *.jpg *.css *.html'',
     ''recursive-include doc *.h *.c *.sh *.svgz *.pdf *.svg *.pyx'',
     ''include doc/README doc/activate doc/activate.csh doc/cheatsheet.tex'',
     ''exclude doc/cheatsheet.pdf'',
     ''include doc/extensions/README doc/Makefile'',
     ''prune doc/source/reference/api/generated'',
     ''prune doc/build'',
     ''prune .tours'',
     ''recursive-include yt/visualization/volume_rendering/shaders *.fragmentshader *.vertexshader'',
     ''include yt/sample_data_registry.json'',
     ''include conftest.py'',
     ''include yt/py.typed'',
     ''include yt/default.mplstyle'',
     '''',
     ''prune yt/frontends/_skeleton'',
     ''recursive-include yt/frontends/amrvac *.par'',
     ''exclude .codecov.yml .coveragerc .git-blame-ignore-revs .gitmodules .hgchurn .mailmap'',
     ''exclude .pre-commit-config.yaml clean.sh nose_answer.cfg nose_unit.cfg nose_ignores.txt'']"

subsection \<open>The template language\<close>

text \<open>
  A template line is a command word followed by its arguments, separated by white space.
  The language has eight commands; a line with another first word, or with the wrong
  number of words for its command, is a template error.
\<close>

datatype rule =
    Include "string list"
  | Exclude "string list"
  | GlobalInclude "string list"
  | GlobalExclude "string list"
  | RecursiveInclude string "string list"
  | RecursiveExclude string "string list"
  | Graft string
  | Prune string

datatype template_error = MissingPatterns string | MissingDirectory string | UnknownAction string

definition is_space :: "char \<Rightarrow> bool" where
  "is_space c = (c = CHR '' '' \<or> c = CHR 0x09)"

text \<open>\<open>split_words w s\<close> splits \<open>s\<close> at runs of white space; \<open>w\<close> is the word being read, reversed.\<close>

fun split_words :: "string \<Rightarrow> string \<Rightarrow> string list" where
  "split_words w [] = (if w = [] then [] else [rev w])"
| "split_words w (c # cs) =
     (if is_space c then (if w = [] then split_words [] cs else rev w # split_words [] cs)
      else split_words (c # w) cs)"

definition parse_template_line :: "string \<Rightarrow> template_error + rule" where
  "parse_template_line line =
     (case split_words [] line of
        [] \<Rightarrow> Inl (UnknownAction [])
      | action # args \<Rightarrow>
          if action = ''include'' then
            (if args = [] then Inl (MissingPatterns action) else Inr (Include args))
          else if action = ''exclude'' then
            (if args = [] then Inl (MissingPatterns action) else Inr (Exclude args))
          else if action = ''global-include'' then
            (if args = [] then Inl (MissingPatterns action) else Inr (GlobalInclude args))
          else if action = ''global-exclude'' then
            (if args = [] then Inl (MissingPatterns action) else Inr (GlobalExclude args))
          else if action = ''recursive-include'' then
            (case args of
               d # p # ps \<Rightarrow> Inr (RecursiveInclude d (p # ps))
             | _ \<Rightarrow> Inl (MissingPatterns action))
          else if action = ''recursive-exclude'' then
            (case args of
               d # p # ps \<Rightarrow> Inr (RecursiveExclude d (p # ps))
             | _ \<Rightarrow> Inl (MissingPatterns action))
          else if action = ''graft'' then
            (case args of [d] \<Rightarrow> Inr (Graft d) | _ \<Rightarrow> Inl (MissingDirectory action))
          else if action = ''prune'' then
            (case args of [d] \<Rightarrow> Inr (Prune d) | _ \<Rightarrow> Inl (MissingDirectory action))
          else Inl (UnknownAction action))"

text \<open>
  Blank lines are skipped; a line that does not parse is reported and skipped. (The
  manifest has no comment and no continuation line.)
\<close>

definition blank :: "string \<Rightarrow> bool" where
  "blank line = (split_words [] line = [])"

fun read_template :: "string list \<Rightarrow> rule list" where
  "read_template [] = []"
| "read_template (l # ls) =
     (if blank l then read_template ls
      else case parse_template_line l of
             Inl e \<Rightarrow> read_template ls
           | Inr r \<Rightarrow> r # read_template ls)"

subsection \<open>Patterns\<close>

text \<open>
  In a pattern \<open>*\<close> stands for any run of characters other than the path separator and
  \<open>?\<close> for one such character; every other character stands for itself. (The manifest
  uses no bracket classes.)
\<close>

fun glob_match :: "string \<Rightarrow> string \<Rightarrow> bool" where
  "glob_match [] [] = True"
| "glob_match [] (c # cs) = False"
| "glob_match (p # ps) [] = (p = CHR ''*'' \<and> glob_match ps [])"
| "glob_match (p # ps) (c # cs) =
     (if p = CHR ''*'' then glob_match ps (c # cs) \<or> (c \<noteq> CHR ''/'' \<and> glob_match (p # ps) cs)
      else (if p = CHR ''?'' then c \<noteq> CHR ''/'' else c = p) \<and> glob_match ps cs)"

text \<open>
  \<open>segment_tails path\<close> lists the ends of a path that begin a component: what is left
  when zero or more whole directory names, each with its separator, are taken off the
  front. The flag tells that the scan is inside a name.
\<close>

fun segment_tails_from :: "bool \<Rightarrow> string \<Rightarrow> string list" where
  "segment_tails_from in_name [] = (if in_name then [] else [[]])"
| "segment_tails_from in_name (c # cs) =
     (if in_name then [] else [c # cs]) @
     (if c = CHR ''/'' then (if in_name then segment_tails_from False cs else [])
      else segment_tails_from True cs)"

definition segment_tails :: "string \<Rightarrow> string list" where
  "segment_tails path = segment_tails_from False path"

text \<open>
  \<open>below dir path\<close> lists what follows \<open>dir/\<close> in \<open>path\<close>, one entry for each way a
  leading part of the path matches the directory pattern.
\<close>

definition below :: "string \<Rightarrow> string \<Rightarrow> string list" where
  "below dir path =
     map (\<lambda>i. drop (Suc i) path)
       (filter (\<lambda>i. path ! i = CHR ''/'' \<and> glob_match dir (take i path)) [0..<length path])"

text \<open>
  An anchored pattern matches the whole path. An unanchored one is read as
  \<^verbatim>\<open>**/pattern\<close>: it matches the path from the start of one of its components to the
  end, and \<^verbatim>\<open>recursive-include dir pattern\<close> is read as \<^verbatim>\<open>dir/**/pattern\<close>.
\<close>

definition match_anchored :: "string \<Rightarrow> string \<Rightarrow> bool" where
  "match_anchored pat path = glob_match pat path"

definition match_end :: "string \<Rightarrow> string \<Rightarrow> bool" where
  "match_end pat path = list_ex (glob_match pat) (segment_tails path)"

definition match_below :: "string \<Rightarrow> string \<Rightarrow> string \<Rightarrow> bool" where
  "match_below dir pat path = list_ex (match_end pat) (below dir path)"

definition in_tree :: "string \<Rightarrow> string \<Rightarrow> bool" where
  "in_tree dir path = (below dir path \<noteq> [])"

subsection \<open>Applying the rules\<close>

text \<open>
  The file list starts empty. An including rule appends the candidate files that match,
  an excluding rule removes the listed files that match; the rules act in file order.
\<close>

definition include_pattern :: "(string \<Rightarrow> bool) \<Rightarrow> string list \<Rightarrow> string list \<Rightarrow> string list" where
  "include_pattern m allfiles files = files @ filter m allfiles"

definition exclude_pattern :: "(string \<Rightarrow> bool) \<Rightarrow> string list \<Rightarrow> string list" where
  "exclude_pattern m files = filter (\<lambda>f. \<not> m f) files"

fun process_rule :: "string list \<Rightarrow> string list \<Rightarrow> rule \<Rightarrow> string list" where
  "process_rule allfiles files (Include pats) =
     foldl (\<lambda>fs pat. include_pattern (match_anchored pat) allfiles fs) files pats"
| "process_rule allfiles files (Exclude pats) =
     foldl (\<lambda>fs pat. exclude_pattern (match_anchored pat) fs) files pats"
| "process_rule allfiles files (GlobalInclude pats) =
     foldl (\<lambda>fs pat. include_pattern (match_end pat) allfiles fs) files pats"
| "process_rule allfiles files (GlobalExclude pats) =
     foldl (\<lambda>fs pat. exclude_pattern (match_end pat) fs) files pats"
| "process_rule allfiles files (RecursiveInclude dir pats) =
     foldl (\<lambda>fs pat. include_pattern (match_below dir pat) allfiles fs) files pats"
| "process_rule allfiles files (RecursiveExclude dir pats) =
     foldl (\<lambda>fs pat. exclude_pattern (match_below dir pat) fs) files pats"
| "process_rule allfiles files (Graft dir) = include_pattern (in_tree dir) allfiles files"
| "process_rule allfiles files (Prune dir) = exclude_pattern (in_tree dir) files"

definition process_template :: "string list \<Rightarrow> string list \<Rightarrow> rule list \<Rightarrow> string list" where
  "process_template allfiles files rules = foldl (process_rule allfiles) files rules"

definition ship :: "string list \<Rightarrow> string list" where
  "ship allfiles = process_template allfiles [] (read_template manifest_lines)"

subsection \<open>The manifest as a predicate on paths\<close>

text \<open>
  \<open>admits r p b\<close> is the verdict on the candidate path \<open>p\<close> after rule \<open>r\<close>, where \<open>b\<close> is the
  verdict before it; \<open>ships p\<close> is the verdict after the whole manifest.
\<close>

fun admits :: "rule \<Rightarrow> string \<Rightarrow> bool \<Rightarrow> bool" where
  "admits (Include pats) p b = (b \<or> list_ex (\<lambda>pat. match_anchored pat p) pats)"
| "admits (Exclude pats) p b = (b \<and> \<not> list_ex (\<lambda>pat. match_anchored pat p) pats)"
| "admits (GlobalInclude pats) p b = (b \<or> list_ex (\<lambda>pat. match_end pat p) pats)"
| "admits (GlobalExclude pats) p b = (b \<and> \<not> list_ex (\<lambda>pat. match_end pat p) pats)"
| "admits (RecursiveInclude dir pats) p b = (b \<or> list_ex (\<lambda>pat. match_below dir pat p) pats)"
| "admits (RecursiveExclude dir pats) p b = (b \<and> \<not> list_ex (\<lambda>pat. match_below dir pat p) pats)"
| "admits (Graft dir) p b = (b \<or> in_tree dir p)"
| "admits (Prune dir) p b = (b \<and> \<not> in_tree dir p)"

definition ships :: "string \<Rightarrow> bool" where
  "ships p = foldl (\<lambda>b r. admits r p b) False (read_template manifest_lines)"

text \<open>The four forms the manifest is said to use, each with at least one argument.\<close>

fun four_forms :: "rule \<Rightarrow> bool" where
  "four_forms (Include pats) = (pats \<noteq> [])"
| "four_forms (Exclude pats) = (pats \<noteq> [])"
| "four_forms (RecursiveInclude dir pats) = (pats \<noteq> [])"
| "four_forms (Prune dir) = True"
| "four_forms r = False"

definition directive :: "string \<Rightarrow> bool" where
  "directive line = (case parse_template_line line of Inl e \<Rightarrow> False | Inr r \<Rightarrow> four_forms r)"

fun command_word :: "rule \<Rightarrow> string" where
  "command_word (Include pats) = ''include''"
| "command_word (Exclude pats) = ''exclude''"
| "command_word (GlobalInclude pats) = ''global-include''"
| "command_word (GlobalExclude pats) = ''global-exclude''"
| "command_word (RecursiveInclude dir pats) = ''recursive-include''"
| "command_word (RecursiveExclude dir pats) = ''recursive-exclude''"
| "command_word (Graft dir) = ''graft''"
| "command_word (Prune dir) = ''prune''"

section \<open>The pre-commit configuration\<close>

text \<open>
  The last source document is \<^verbatim>\<open>.pre-commit-config.yaml\<close>. Its mappings become records
  and its sequences lists. The \<^verbatim>\<open>exclude\<close> entry is one regular expression,
  \<^verbatim>\<open>^(a|b|...)\<close>; it is kept as the list of its alternatives, in order.
\<close>

record hook =
  hook_id :: string
  args :: "string list"
  additional_dependencies :: "string list"

record repo =
  repo_url :: string
  repo_rev :: string
  hooks :: "hook list"

record ci_settings =
  autofix_prs :: bool
  autoupdate_schedule :: string

record pre_commit_config =
  minimum_pre_commit_version :: string
  exclude :: "string list"
  ci :: ci_settings
  repos :: "repo list"

definition plain_hook :: "string \<Rightarrow> hook" where
  "plain_hook name = \<lparr>hook_id = name, args = [], additional_dependencies = []\<rparr>"

definition pre_commit_config_yaml :: pre_commit_config where
  "pre_commit_config_yaml =
    \<lparr>minimum_pre_commit_version = ''1.15.0'',
     exclude =
       [''yt/extern'', ''yt/frontends/stream/sample_data'', ''yt/units'', ''scripts'',
        ''benchmark'', ''setupext.py'', ''yt/visualization/_colormap_data.py''],
     ci = \<lparr>autofix_prs = False, autoupdate_schedule = ''monthly''\<rparr>,
     repos =
       [\<lparr>repo_url = ''https://github.com/pre-commit/pre-commit-hooks'', repo_rev = ''v4.4.0'',
         hooks =
           [plain_hook ''trailing-whitespace'', plain_hook ''end-of-file-fixer'',
            plain_hook ''no-commit-to-branch'',
            plain_hook ''check-shebang-scripts-are-executable'',
            plain_hook ''check-executables-have-shebangs'', plain_hook ''check-yaml'']\<rparr>,
        \<lparr>repo_url = ''https://github.com/psf/black'', repo_rev = ''23.3.0'',
         hooks = [plain_hook ''black-jupyter'']\<rparr>,
        \<lparr>repo_url = ''https://github.com/adamchainz/blacken-docs'', repo_rev = ''1.14.0'',
         hooks =
           [\<lparr>hook_id = ''blacken-docs'', args = [],
             additional_dependencies = [''black==23.1.0'']\<rparr>]\<rparr>,
        \<lparr>repo_url = ''https://github.com/charliermarsh/ruff-pre-commit'', repo_rev = ''v0.0.275'',
         hooks = [\<lparr>hook_id = ''ruff'', args = [''--fix''], additional_dependencies = []\<rparr>]\<rparr>,
        \<lparr>repo_url = ''https://github.com/nbQA-dev/nbQA'', repo_rev = ''1.7.0'',
         hooks =
           [\<lparr>hook_id = ''nbqa-ruff'', args = [''--fix'', ''--extend-ignore=E402''],
             additional_dependencies = []\<rparr>]\<rparr>,
        \<lparr>repo_url = ''https://github.com/pre-commit/pygrep-hooks'', repo_rev = ''v1.10.0'',
         hooks = [plain_hook ''rst-backticks'']\<rparr>,
        \<lparr>repo_url = ''https://github.com/MarcoGorelli/cython-lint'', repo_rev = ''v0.15.0'',
         hooks =
           [\<lparr>hook_id = ''cython-lint'', args = [''--no-pycodestyle''],
             additional_dependencies = []\<rparr>]\<rparr>]\<rparr>"

definition hook_ids :: "pre_commit_config \<Rightarrow> string list" where
  "hook_ids c = concat (map (\<lambda>r. map hook_id (hooks r)) (repos c))"

section \<open>Arrays, random draws and dictionaries\<close>

text \<open>
  A NumPy array is its shape and its items in row-major order. The notebooks fill their
  arrays with random draws, so no item is a fixed number; a generator is the stream of
  the draws it has still to hand out, and a drawing call returns the rest of the stream.
\<close>

datatype ndarray = NdArray (shape: "nat list") (item: "nat \<Rightarrow> real")

type_synonym generator = "nat \<Rightarrow> real"

definition filled :: "nat list \<Rightarrow> (nat \<Rightarrow> real) \<Rightarrow> ndarray" where
  "filled shp f = NdArray shp (\<lambda>i. if i < prod_list shp then f i else 0)"

definition draw :: "nat list \<Rightarrow> (real \<Rightarrow> real) \<Rightarrow> generator \<Rightarrow> ndarray \<times> generator" where
  "draw shp f g = (filled shp (\<lambda>i. f (g i)), \<lambda>i. g (i + prod_list shp))"

definition prng_random :: "nat list \<Rightarrow> generator \<Rightarrow> ndarray \<times> generator" where
  "prng_random shp g = draw shp (\<lambda>u. u) g"

definition prng_uniform :: "real \<Rightarrow> real \<Rightarrow> nat \<Rightarrow> generator \<Rightarrow> ndarray \<times> generator" where
  "prng_uniform low high n g = draw [n] (\<lambda>u. low + (high - low) * u) g"

definition np_random_normal :: "nat list \<Rightarrow> generator \<Rightarrow> ndarray \<times> generator" where
  "np_random_normal shp g = draw shp (\<lambda>u. u) g"

definition np_ones :: "nat \<Rightarrow> ndarray" where
  "np_ones n = filled [n] (\<lambda>i. 1)"

definition np_ones_like :: "ndarray \<Rightarrow> ndarray" where
  "np_ones_like a = filled (shape a) (\<lambda>i. 1)"

definition empty_array :: ndarray where
  "empty_array = filled [0] (\<lambda>i. 0)"

definition scaled :: "real \<Rightarrow> ndarray \<Rightarrow> ndarray" where
  "scaled c a = NdArray (shape a) (\<lambda>i. c * item a i)"

datatype py_error = KeyError | IndexError | TypeError | ValueError | AttributeError

text \<open>
  \<open>a, b, c = arr\<close> iterates over the first axis of the array and needs exactly three
  rows.
\<close>

definition rows :: "ndarray \<Rightarrow> py_error + ndarray list" where
  "rows a =
     (case shape a of
        [] \<Rightarrow> Inl TypeError
      | n # rest \<Rightarrow>
          Inr (map (\<lambda>k. NdArray rest (\<lambda>i. item a (k * prod_list rest + i))) [0..<n]))"

definition unpack3 :: "ndarray \<Rightarrow> py_error + ndarray \<times> ndarray \<times> ndarray" where
  "unpack3 a =
     (case rows a of
        Inl e \<Rightarrow> Inl e
      | Inr [x, y, z] \<Rightarrow> Inr (x, y, z)
      | Inr _ \<Rightarrow> Inl ValueError)"

text \<open>
  The values the notebooks put into dictionaries. A dictionary keeps its keys in
  insertion order; a key is a string or a pair of strings.
\<close>

datatype pyval =
    NoneV
  | IntV int
  | Str string
  | FloatList "rat list"
  | IntList "int list"
  | Array ndarray
  | Tuple pyval pyval

datatype key = K string | K2 string string

type_synonym pydict = "(key \<times> pyval) list"

definition getitem :: "pydict \<Rightarrow> key \<Rightarrow> py_error + pyval" where
  "getitem d k = (case map_of d k of None \<Rightarrow> Inl KeyError | Some v \<Rightarrow> Inr v)"

definition setitem :: "pydict \<Rightarrow> key \<Rightarrow> pyval \<Rightarrow> pydict" where
  "setitem d k v = AList.update k v d"

definition pop :: "pydict \<Rightarrow> key \<Rightarrow> py_error + pyval \<times> pydict" where
  "pop d k = (case map_of d k of None \<Rightarrow> Inl KeyError | Some v \<Rightarrow> Inr (v, AList.delete k d))"

text \<open>
  \<open>d[k][0].shape\<close>: the shape of what stands first in the value stored at \<open>k\<close>. For a
  pair that is its first component, which has a shape when it is an array; an array
  has rows, a string characters and a list elements, and only a row has a shape;
  \<^verbatim>\<open>None\<close> and an integer cannot be subscripted.
\<close>

definition field_shape :: "pydict \<Rightarrow> key \<Rightarrow> py_error + nat list" where
  "field_shape d k =
     (case getitem d k of
        Inl e \<Rightarrow> Inl e
      | Inr (Tuple (Array a) u) \<Rightarrow> Inr (shape a)
      | Inr (Tuple v u) \<Rightarrow> Inl AttributeError
      | Inr (Array a) \<Rightarrow>
          (case shape a of
             [] \<Rightarrow> Inl IndexError
           | n # rest \<Rightarrow> if n = 0 then Inl IndexError else Inr rest)
      | Inr (Str s) \<Rightarrow> if s = [] then Inl IndexError else Inl AttributeError
      | Inr (FloatList l) \<Rightarrow> if l = [] then Inl IndexError else Inl AttributeError
      | Inr (IntList l) \<Rightarrow> if l = [] then Inl IndexError else Inl AttributeError
      | Inr v \<Rightarrow> Inl TypeError)"

section \<open>Calls into the library\<close>

text \<open>
  The notebooks own no data structure; what they do is call yt. Running a notebook
  yields the list of its calls into yt, in order: calls through the \<^verbatim>\<open>yt\<close> module, calls
  of names imported from it, and method calls on the objects it returned (the methods
  of arrays, such as \<^verbatim>\<open>astype\<close>, are NumPy's and are left out). A loading
  call is recorded with the data dictionary (or the grid dictionaries) and the domain
  dimensions it passes; any other call with the receiver and the name written at the
  call site. Each code cell runs in turn in one kernel: a cell that raises stops at the
  raising statement, what it did before stays, and the next cell runs. Every call into
  the library is taken to return.
\<close>

datatype api_call =
    LoadUniformGrid pydict "nat list"
  | LoadAmrGrids "pydict list" "int list"
  | LoadParticles pydict
  | Call string string

fun callee :: "api_call \<Rightarrow> string" where
  "callee (LoadUniformGrid d dims) = ''load_uniform_grid''"
| "callee (LoadAmrGrids gs dims) = ''load_amr_grids''"
| "callee (LoadParticles d) = ''load_particles''"
| "callee (Call receiver name) = name"

text \<open>
  What a run depends on from outside the notebooks: the two random streams (the seeded
  generator \<open>prng\<close> and NumPy's global one, which serves \<^verbatim>\<open>np.random.normal\<close>), the items
  of the HDF5 file, the header-data units of the FITS file, and the file names the first
  \<^verbatim>\<open>glob\<close> of the trajectory notebook finds.
\<close>

record hdu =
  hdu_name :: string
  hdu_data :: "ndarray option"

record inputs =
  prng :: generator
  normal :: generator
  h5_items :: "(string \<times> ndarray) list"
  fits_hdus :: "hdu list"
  orbit_fns :: "string list"

section \<open>The notebook on loading generic array data\<close>

subsection \<open>Uniform grids made on the fly\<close>

text \<open>
  \<^verbatim>\<open>arr = prng.random(size=(64, 64, 64))\<close>, then
  \<^verbatim>\<open>data = {"density": (arr, "g/cm**3")}\<close> and
  \<^verbatim>\<open>yt.load_uniform_grid(data, arr.shape, ...)\<close>, then a slice plot.
\<close>

definition unigrid_density :: "generator \<Rightarrow> api_call list \<times> generator" where
  "unigrid_density g0 =
     (let (arr, g1) = prng_random [64, 64, 64] g0;
          data = [(K ''density'', Tuple (Array arr) (Str ''g/cm**3''))]
      in ([LoadUniformGrid data (shape arr),
           Call ''yt'' ''SlicePlot'', Call ''slc'' ''set_cmap'', Call ''slc'' ''annotate_grids'',
           Call ''slc'' ''show''], g1))"

text \<open>
  The three position arrays are drawn first, the density array while the dictionary
  is built; the dimensions are \<^verbatim>\<open>data["density"][0].shape\<close>.
\<close>

definition unigrid_particles_data :: "generator \<Rightarrow> pydict \<times> generator" where
  "unigrid_particles_data g0 =
     (let (posx_arr, g1) = prng_uniform (- 1.5) 1.5 10000 g0;
          (posy_arr, g2) = prng_uniform (- 1.5) 1.5 10000 g1;
          (posz_arr, g3) = prng_uniform (- 1.5) 1.5 10000 g2;
          (dens, g4) = prng_random [64, 64, 64] g3
      in ([(K ''density'', Tuple (Array dens) (Str ''Msun/kpc**3'')),
           (K ''particle_position_x'', Tuple (Array posx_arr) (Str ''code_length'')),
           (K ''particle_position_y'', Tuple (Array posy_arr) (Str ''code_length'')),
           (K ''particle_position_z'', Tuple (Array posz_arr) (Str ''code_length''))], g4))"

definition load_uniform_grid_by :: "pydict \<Rightarrow> key \<Rightarrow> api_call list" where
  "load_uniform_grid_by data k =
     (case field_shape data k of Inl e \<Rightarrow> [] | Inr dims \<Rightarrow> [LoadUniformGrid data dims])"

definition unigrid_particles :: "generator \<Rightarrow> api_call list \<times> generator" where
  "unigrid_particles g0 =
     (let (data, g1) = unigrid_particles_data g0
      in (load_uniform_grid_by data (K ''density'') @
          [Call ''yt'' ''SlicePlot'', Call ''slc'' ''set_cmap'', Call ''slc'' ''annotate_particles'',
           Call ''slc'' ''show''], g1))"

subsection \<open>Uniform grids read from an HDF5 file\<close>

definition units :: "string list" where
  "units =
     [''gauss'', ''gauss'', ''gauss'', ''g/cm**3'', ''erg/cm**3'', ''K'',
      ''cm/s'', ''cm/s'', ''cm/s'', ''cm/s'', ''cm/s'', ''cm/s'']"

text \<open>\<^verbatim>\<open>data = {k: (v[()], u) for (k, v), u in zip(f.items(), units)}\<close>\<close>

definition h5_data :: "(string \<times> ndarray) list \<Rightarrow> pydict" where
  "h5_data items =
     foldl (\<lambda>d ((k, v), u). setitem d (K k) (Tuple (Array v) (Str u))) [] (zip items units)"

text \<open>
  The loading cell reads \<^verbatim>\<open>data["Density"][0].shape\<close> before it can call; the cells after
  it project, read the extrema and set up a volume rendering.
\<close>

definition h5_example :: "(string \<times> ndarray) list \<Rightarrow> api_call list" where
  "h5_example items =
     [Call ''ytcfg'' ''get''] @
     load_uniform_grid_by (h5_data items) (K ''Density'') @
     [Call ''yt'' ''ProjectionPlot'', Call ''prj'' ''set_log'', Call ''prj'' ''set_log'',
      Call ''prj'' ''show'',
      Call ''ds'' ''all_data'', Call ''quantities'' ''extrema'',
      Call ''yt'' ''create_scene'', Call ''ds'' ''all_data'', Call ''yt'' ''ColorTransferFunction'',
      Call ''tf'' ''map_to_colormap'', Call ''source'' ''set_transfer_function'',
      Call ''sc'' ''add_source'', Call ''sc'' ''add_camera'',
      Call ''sc'' ''show'']"

subsection \<open>Uniform grids read from a FITS file\<close>

definition lower_char :: "char \<Rightarrow> char" where
  "lower_char c =
     (let n = (of_char c :: nat) in if 65 \<le> n \<and> n \<le> 90 then char_of (n + 32) else c)"

definition lower :: "string \<Rightarrow> string" where
  "lower s = map lower_char s"

text \<open>
  \<^verbatim>\<open>for hdu in f: data[hdu.name.lower()] = (hdu.data, "km/s")\<close>. The loop runs over every
  unit of the file; the data of a unit without an image is \<^verbatim>\<open>None\<close>.
\<close>

definition hdu_value :: "hdu \<Rightarrow> pyval" where
  "hdu_value h = Tuple (case hdu_data h of None \<Rightarrow> NoneV | Some a \<Rightarrow> Array a) (Str ''km/s'')"

definition fits_data :: "hdu list \<Rightarrow> pydict" where
  "fits_data f = foldl (\<lambda>d h. setitem d (K (lower (hdu_name h))) (hdu_value h)) [] f"

text \<open>\<^verbatim>\<open>data[new] = data.pop(old)\<close>\<close>

definition rename :: "pydict \<Rightarrow> string \<Rightarrow> string \<Rightarrow> py_error + pydict" where
  "rename d new old =
     (case pop d (K old) of Inl e \<Rightarrow> Inl e | Inr (v, d') \<Rightarrow> Inr (setitem d' (K new) v))"

text \<open>The three renamings of one cell; the first that raises ends the cell.\<close>

definition rename_velocities :: "pydict \<Rightarrow> pydict" where
  "rename_velocities d =
     (case rename d ''velocity_x'' ''x-velocity'' of
        Inl e \<Rightarrow> d
      | Inr d1 \<Rightarrow>
          (case rename d1 ''velocity_y'' ''y-velocity'' of
             Inl e \<Rightarrow> d1
           | Inr d2 \<Rightarrow>
               (case rename d2 ''velocity_z'' ''z-velocity'' of
                  Inl e \<Rightarrow> d2
                | Inr d3 \<Rightarrow> d3)))"

text \<open>
  The loading cell plots after it has loaded, so it plots only when the load was
  reached: \<^verbatim>\<open>set_log\<close> once for each of the three axes.
\<close>

definition fits_example :: "hdu list \<Rightarrow> api_call list" where
  "fits_example f =
     (case load_uniform_grid_by (rename_velocities (fits_data f)) (K ''velocity_x'') of
        [] \<Rightarrow> []
      | c # cs \<Rightarrow>
          (c # cs) @
          [Call ''yt'' ''SlicePlot'', Call ''slc'' ''set_log'', Call ''slc'' ''set_log'',
           Call ''slc'' ''set_log'', Call ''slc'' ''annotate_velocity'', Call ''slc'' ''show''])"

subsection \<open>Grids at several levels of refinement\<close>

definition grid_data :: "pydict list" where
  "grid_data =
     [[(K ''left_edge'', FloatList [0, 0, 0]),
       (K ''right_edge'', FloatList [1, 1, 1]),
       (K ''level'', IntV 0),
       (K ''dimensions'', IntList [32, 32, 32])],
      [(K ''left_edge'', FloatList [1 / 4, 1 / 4, 1 / 4]),
       (K ''right_edge'', FloatList [3 / 4, 3 / 4, 3 / 4]),
       (K ''level'', IntV 1),
       (K ''dimensions'', IntList [32, 32, 32])]]"

text \<open>
  \<^verbatim>\<open>(prng.random(g["dimensions"]) * 2 ** g["level"], "g/cm**3")\<close>: the dimensions are
  looked up and the array drawn before the level is looked up, so the generator may have
  moved on when the expression raises. The literal binds the dimensions to a list of
  integers and the level to an integer; a value of another kind is taken to raise a type
  error.
\<close>

definition grid_density :: "generator \<Rightarrow> pydict \<Rightarrow> (py_error + pyval) \<times> generator" where
  "grid_density g0 g =
     (case getitem g (K ''dimensions'') of
        Inl e \<Rightarrow> (Inl e, g0)
      | Inr (IntList dims) \<Rightarrow>
          if list_ex (\<lambda>n. n < 0) dims then (Inl ValueError, g0)
          else
            (let (a, g1) = prng_random (map nat dims) g0
             in case getitem g (K ''level'') of
                  Inl e \<Rightarrow> (Inl e, g1)
                | Inr (IntV l) \<Rightarrow>
                    (Inr (Tuple (Array (scaled (2 powr real_of_int l) a)) (Str ''g/cm**3'')), g1)
                | Inr v \<Rightarrow> (Inl TypeError, g1))
      | Inr v \<Rightarrow> (Inl TypeError, g0))"

text \<open>\<^verbatim>\<open>for g in grid_data: g["density"] = ...\<close>; a grid that raises ends the loop.\<close>

fun add_densities :: "generator \<Rightarrow> pydict list \<Rightarrow> pydict list \<times> generator" where
  "add_densities g0 [] = ([], g0)"
| "add_densities g0 (g # gs) =
     (case grid_density g0 g of
        (Inl e, g1) \<Rightarrow> (g # gs, g1)
      | (Inr v, g1) \<Rightarrow>
          (let (gs', g2) = add_densities g1 gs in (setitem g (K ''density'') v # gs', g2)))"

text \<open>\<^verbatim>\<open>grids[i][k] = v\<close>\<close>

definition set_grid_item :: "pydict list \<Rightarrow> nat \<Rightarrow> key \<Rightarrow> pyval \<Rightarrow> py_error + pydict list" where
  "set_grid_item grids i k v =
     (if i < length grids then Inr (grids[i := setitem (grids ! i) k v]) else Inl IndexError)"

text \<open>
  The particle cell: three empty position arrays for the first grid, three arrays of a
  thousand draws for the second. Each statement builds its value, then stores it; the
  statement that raises ends the cell.
\<close>

definition add_particles :: "generator \<Rightarrow> pydict list \<Rightarrow> pydict list \<times> generator" where
  "add_particles g0 grids0 =
     (let none = Tuple (Array empty_array) (Str ''code_length'') in
      case set_grid_item grids0 0 (K ''particle_position_x'') none of
        Inl e \<Rightarrow> (grids0, g0)
      | Inr grids1 \<Rightarrow>
      case set_grid_item grids1 0 (K ''particle_position_y'') none of
        Inl e \<Rightarrow> (grids1, g0)
      | Inr grids2 \<Rightarrow>
      case set_grid_item grids2 0 (K ''particle_position_z'') none of
        Inl e \<Rightarrow> (grids2, g0)
      | Inr grids3 \<Rightarrow>
      let (px, g1) = prng_uniform 0.25 0.75 1000 g0 in
      case set_grid_item grids3 1 (K ''particle_position_x'') (Tuple (Array px) (Str ''code_length'')) of
        Inl e \<Rightarrow> (grids3, g1)
      | Inr grids4 \<Rightarrow>
      let (py, g2) = prng_uniform 0.25 0.75 1000 g1 in
      case set_grid_item grids4 1 (K ''particle_position_y'') (Tuple (Array py) (Str ''code_length'')) of
        Inl e \<Rightarrow> (grids4, g2)
      | Inr grids5 \<Rightarrow>
      let (pz, g3) = prng_uniform 0.25 0.75 1000 g2 in
      case set_grid_item grids5 1 (K ''particle_position_z'') (Tuple (Array pz) (Str ''code_length'')) of
        Inl e \<Rightarrow> (grids5, g3)
      | Inr grids6 \<Rightarrow> (grids6, g3))"

definition amr_grids :: "generator \<Rightarrow> pydict list \<times> generator" where
  "amr_grids g0 = (let (grids, g1) = add_densities g0 grid_data in add_particles g1 grids)"

definition amr_example :: "generator \<Rightarrow> api_call list \<times> generator" where
  "amr_example g0 =
     (let (grids, g1) = amr_grids g0
      in ([LoadAmrGrids grids [32, 32, 32],
           Call ''yt'' ''SlicePlot'', Call ''slc'' ''annotate_particles'', Call ''slc'' ''show''], g1))"

subsection \<open>Species fields and several particle types\<close>

definition species_example :: "generator \<Rightarrow> api_call list \<times> generator" where
  "species_example g0 =
     (let (arr, g1) = prng_random [64, 64, 64] g0;
          data =
            [(K ''density'', Tuple (Array arr) (Str ''g/cm**3'')),
             (K ''H_p0_fraction'', Tuple (Array (scaled 0.37 (np_ones_like arr))) (Str ''dimensionless'')),
             (K ''H_p1_fraction'', Tuple (Array (scaled 0.37 (np_ones_like arr))) (Str ''dimensionless'')),
             (K ''He_fraction'', Tuple (Array (scaled 0.24 (np_ones_like arr))) (Str ''dimensionless'')),
             (K ''CO_fraction'', Tuple (Array (scaled 0.02 (np_ones_like arr))) (Str ''dimensionless''))]
      in ([LoadUniformGrid data (shape arr),
           Call ''ds'' ''all_data'', Call ''dd'' ''mean'', Call ''dd'' ''min'', Call ''dd'' ''max''], g1))"

definition typed_particles_data :: "generator \<Rightarrow> pydict \<times> generator" where
  "typed_particles_data g0 =
     (let (posxr_arr, g1) = prng_uniform (- 1.5) 1.5 10000 g0;
          (posyr_arr, g2) = prng_uniform (- 1.5) 1.5 10000 g1;
          (poszr_arr, g3) = prng_uniform (- 1.5) 1.5 10000 g2;
          (posxb_arr, g4) = prng_uniform (- 1.5) 1.5 20000 g3;
          (posyb_arr, g5) = prng_uniform (- 1.5) 1.5 20000 g4;
          (poszb_arr, g6) = prng_uniform (- 1.5) 1.5 20000 g5;
          (dens, g7) = prng_random [64, 64, 64] g6
      in ([(K2 ''gas'' ''density'', Tuple (Array dens) (Str ''Msun/kpc**3'')),
           (K2 ''red'' ''particle_position_x'', Tuple (Array posxr_arr) (Str ''code_length'')),
           (K2 ''red'' ''particle_position_y'', Tuple (Array posyr_arr) (Str ''code_length'')),
           (K2 ''red'' ''particle_position_z'', Tuple (Array poszr_arr) (Str ''code_length'')),
           (K2 ''blue'' ''particle_position_x'', Tuple (Array posxb_arr) (Str ''code_length'')),
           (K2 ''blue'' ''particle_position_y'', Tuple (Array posyb_arr) (Str ''code_length'')),
           (K2 ''blue'' ''particle_position_z'', Tuple (Array poszb_arr) (Str ''code_length''))], g7))"

definition typed_particles :: "generator \<Rightarrow> api_call list \<times> generator" where
  "typed_particles g0 =
     (let (data, g1) = typed_particles_data g0
      in (load_uniform_grid_by data (K2 ''gas'' ''density'') @ [Call ''ds'' ''all_data''], g1))"

subsection \<open>The whole notebook\<close>

definition array_nb :: "inputs \<Rightarrow> api_call list" where
  "array_nb inp =
     (let (c1, g1) = unigrid_density (prng inp);
          (c2, g2) = unigrid_particles g1;
          c3 = h5_example (h5_items inp);
          c4 = fits_example (fits_hdus inp);
          (c5, g3) = amr_example g2;
          (c6, g4) = species_example g3;
          (c7, g5) = typed_particles g4
      in c1 @ c2 @ c3 @ c4 @ c5 @ c6 @ c7)"

section \<open>The notebook on loading generic particle data\<close>

text \<open>
  \<^verbatim>\<open>ppx, ppy, ppz = 1e6 * np.random.normal(size=[3, n_particles])\<close> draws one array of
  three rows and unpacks it; \<^verbatim>\<open>ppm = np.ones(n_particles)\<close>. The dictionary binds each
  field name to its array alone.
\<close>

definition n_particles :: nat where
  "n_particles = 5000000"

definition normal_rows :: "real \<Rightarrow> nat \<Rightarrow> generator \<Rightarrow> (py_error + ndarray \<times> ndarray \<times> ndarray) \<times> generator" where
  "normal_rows c n g0 = (let (a, g1) = np_random_normal [3, n] g0 in (unpack3 (scaled c a), g1))"

definition particle_data :: "ndarray \<times> ndarray \<times> ndarray \<Rightarrow> pydict" where
  "particle_data pos =
     (case pos of (ppx, ppy, ppz) \<Rightarrow>
        [(K ''particle_position_x'', Array ppx),
         (K ''particle_position_y'', Array ppy),
         (K ''particle_position_z'', Array ppz),
         (K ''particle_mass'', Array (np_ones n_particles))])"

definition n_star_particles :: nat where
  "n_star_particles = 1000000"

definition n_dm_particles :: nat where
  "n_dm_particles = 2000000"

definition particle_data2 :: "ndarray \<times> ndarray \<times> ndarray \<Rightarrow> ndarray \<times> ndarray \<times> ndarray \<Rightarrow> pydict" where
  "particle_data2 posd poss =
     (case posd of (ppxd, ppyd, ppzd) \<Rightarrow>
      case poss of (ppxs, ppys, ppzs) \<Rightarrow>
        [(K2 ''dm'' ''particle_position_x'', Array ppxd),
         (K2 ''dm'' ''particle_position_y'', Array ppyd),
         (K2 ''dm'' ''particle_position_z'', Array ppzd),
         (K2 ''dm'' ''particle_mass'', Array (np_ones n_dm_particles)),
         (K2 ''star'' ''particle_position_x'', Array ppxs),
         (K2 ''star'' ''particle_position_y'', Array ppys),
         (K2 ''star'' ''particle_position_z'', Array ppzs),
         (K2 ''star'' ''particle_mass'', Array (scaled 0.1 (np_ones n_star_particles)))])"

text \<open>
  Every later cell uses a name the first cell binds, so nothing is called when the
  first unpacking raises; the last two cells depend in the same way on the two
  unpackings of the cell that builds \<^verbatim>\<open>data2\<close>.
\<close>

definition particle_nb :: "inputs \<Rightarrow> api_call list" where
  "particle_nb inp =
     (let (r, g1) = normal_rows 1000000 n_particles (normal inp) in
      case r of
        Inl e \<Rightarrow> []
      | Inr pos \<Rightarrow>
          (let c1 = [LoadParticles (particle_data pos), Call ''ds'' ''all_data'',
                     Call ''yt'' ''SlicePlot'', Call ''slc'' ''set_width''];
               (rd, g2) = normal_rows 1000000 n_dm_particles g1 in
           case rd of
             Inl e \<Rightarrow> c1
           | Inr posd \<Rightarrow>
               (let (rs, g3) = normal_rows 500000 n_star_particles g2 in
                case rs of
                  Inl e \<Rightarrow> c1
                | Inr poss \<Rightarrow>
                    c1 @ [LoadParticles (particle_data2 posd poss),
                          Call ''yt'' ''SlicePlot'', Call ''slc'' ''set_width''])))"

section \<open>The notebook on particle trajectories\<close>

text \<open>
  The first part reads \<^verbatim>\<open>my_fns[0]\<close>, which raises when the \<^verbatim>\<open>glob\<close> found no file; then
  \<^verbatim>\<open>indices\<close> is unbound, the first \<^verbatim>\<open>ts.particle_trajectories(indices, ...)\<close> raises
  before it calls, and \<^verbatim>\<open>trajs\<close> stays unbound until the second part binds it.
\<close>

definition trajectories_nb :: "inputs \<Rightarrow> api_call list" where
  "trajectories_nb inp =
     [Call ''ytcfg'' ''get''] @
     (if orbit_fns inp = [] then [] else [Call ''yt'' ''load'', Call ''ds'' ''all_data'']) @
     [Call ''yt'' ''DatasetSeries''] @
     (if orbit_fns inp = [] then []
      else [Call ''ts'' ''particle_trajectories'', Call ''trajs'' ''trajectory_from_index'']) @
     [Call ''yt'' ''load'', Call ''yt'' ''SlicePlot'', Call ''slc'' ''show'',
      Call ''ds'' ''sphere'',
      Call ''yt'' ''DatasetSeries'', Call ''ts'' ''particle_trajectories'',
      Call ''trajs'' ''add_fields'',
      Call ''trajs'' ''write_out'', Call ''trajs'' ''write_out_h5'']"

section \<open>Double-precision arithmetic\<close>

text \<open>
  The field functions of the FITS notebook compute on arrays of double-precision
  numbers. A double is a finite number other than zero, a signed zero, a signed
  infinity or not-a-number; the sign is \<open>True\<close> for minus. \<open>Finite 0\<close> is read as plus
  zero, and the numbers meant are those that rounding leaves as they are. An operation
  yields a double and the floating-point signals it raises, of which
  NumPy reports division by zero, overflow and invalid value (it ignores underflow).
\<close>

datatype f64 = Finite rat | Zero bool | Infinite bool | NaN

datatype signal = DivideByZero | Overflow | InvalidValue

fun is_zero :: "f64 \<Rightarrow> bool" where
  "is_zero (Zero s) = True"
| "is_zero (Finite a) = (a = 0)"
| "is_zero x = False"


fun is_infinite :: "f64 \<Rightarrow> bool" where
  "is_infinite (Infinite s) = True"
| "is_infinite x = False"

fun negative :: "f64 \<Rightarrow> bool" where
  "negative (Finite a) = (a < 0)"
| "negative (Zero s) = s"
| "negative (Infinite s) = s"
| "negative NaN = False"

fun magnitude :: "f64 \<Rightarrow> rat" where
  "magnitude (Finite a) = \<bar>a\<bar>"
| "magnitude x = 0"

subsection \<open>Rounding\<close>

text \<open>\<open>pow2 d\<close> is two to the power \<open>d\<close>, computed by squaring.\<close>

function pow2n :: "int \<Rightarrow> rat" where
  "pow2n d =
     (if d \<le> 0 then 1
      else if even d then (let h = pow2n (d div 2) in h * h)
      else 2 * pow2n (d - 1))"
  by pat_completeness auto
termination
  by (relation "measure nat") auto

declare pow2n.simps [simp del]

definition pow2 :: "int \<Rightarrow> rat" where
  "pow2 d = (if 0 \<le> d then pow2n d else 1 / pow2n (- d))"

text \<open>The number of binary digits of a positive integer, taken 64 at a time while it is large.\<close>

function bit_length :: "int \<Rightarrow> int" where
  "bit_length n =
     (if n \<le> 0 then 0
      else if 18446744073709551616 \<le> n then 64 + bit_length (n div 18446744073709551616)
      else 1 + bit_length (n div 2))"
  by pat_completeness auto
termination
  by (relation "measure nat") auto

declare bit_length.simps [simp del]

text \<open>For \<open>a > 0\<close>, the exponent \<open>e\<close> with \<open>2^e \<le> a < 2^(e + 1)\<close>.\<close>

definition floor_log2 :: "rat \<Rightarrow> int" where
  "floor_log2 a =
     (case quotient_of a of
        (p, q) \<Rightarrow>
          (let d = bit_length p - bit_length q
           in if pow2 d \<le> a then d else d - 1))"

definition round_half_even :: "rat \<Rightarrow> int" where
  "round_half_even r =
     (let f = \<lfloor>r\<rfloor>; d = r - of_int f
      in if d < 1 / 2 then f else if 1 / 2 < d then f + 1 else if even f then f else f + 1)"

text \<open>
  The double nearest to an exact result, ties going to the even neighbour. The doubles
  of exponent \<open>e\<close> are the multiples of \<open>2^(e - 52)\<close>; below \<open>2^(- 1022)\<close> the
  exponent stays \<open>- 1022\<close>, so that what is less than half of \<open>2^(- 1074)\<close> rounds to
  zero; a result that reaches \<open>2^1024\<close>, before or after rounding, is infinite.
\<close>

definition round64 :: "rat \<Rightarrow> f64" where
  "round64 x =
     (if x = 0 then Zero False
      else
        (let a = \<bar>x\<bar> in
         if pow2 1024 \<le> a then Infinite (x < 0)
         else
           (let e = (if a < pow2 (- 1022) then - 1022 else floor_log2 a);
                q = pow2 (e - 52);
                n = round_half_even (a / q);
                v = of_int n * q
            in if pow2 1024 \<le> v then Infinite (x < 0)
               else if n = 0 then Zero (x < 0)
               else Finite (if x < 0 then - v else v))))"

subsection \<open>The operations the field functions use\<close>

text \<open>
  \<^verbatim>\<open>x * y\<close>. Not-a-number goes through; infinity times zero is invalid; otherwise the
  sign is the product of the signs and a product of two finite numbers is rounded.
\<close>

definition multiply :: "f64 \<Rightarrow> f64 \<Rightarrow> f64 \<times> signal list" where
  "multiply x y =
     (if x = NaN \<or> y = NaN then (NaN, [])
      else if is_infinite x \<or> is_infinite y then
        (if is_zero x \<or> is_zero y then (NaN, [InvalidValue])
         else (Infinite (negative x \<noteq> negative y), []))
      else if is_zero x \<or> is_zero y then (Zero (negative x \<noteq> negative y), [])
      else
        (let r = round64 (if negative x = negative y then magnitude x * magnitude y
                          else - (magnitude x * magnitude y))
         in (r, if is_infinite r then [Overflow] else [])))"

text \<open>The integer square root, two binary digits at a time.\<close>

function isqrt :: "int \<Rightarrow> int" where
  "isqrt m =
     (if m < 1 then 0
      else (let s = 2 * isqrt (m div 4) in if (s + 1) * (s + 1) \<le> m then s + 1 else s))"
  by pat_completeness auto
termination
  by (relation "measure nat") auto

declare isqrt.simps [simp del]

text \<open>
  The double nearest to the square root of \<open>a > 0\<close>: the root has exponent
  \<open>floor_log2 a div 2\<close>, and is compared with the midpoint between two neighbours by
  comparing the squares.
\<close>

definition sqrt64 :: "rat \<Rightarrow> f64" where
  "sqrt64 a =
     (let e = floor_log2 a div 2;
          q = pow2 (e - 52);
          r = a / (q * q);
          n0 = isqrt \<lfloor>r\<rfloor>;
          h = (of_int n0 + 1 / 2) * (of_int n0 + 1 / 2);
          n = (if r < h then n0 else if h < r then n0 + 1 else if even n0 then n0 else n0 + 1)
      in Finite (of_int n * q))"

text \<open>\<^verbatim>\<open>np.sqrt(x)\<close>\<close>

definition np_sqrt :: "f64 \<Rightarrow> f64 \<times> signal list" where
  "np_sqrt x =
     (case x of
        NaN \<Rightarrow> (NaN, [])
      | Zero s \<Rightarrow> (Zero s, [])
      | Infinite s \<Rightarrow> if s then (NaN, [InvalidValue]) else (Infinite False, [])
      | Finite a \<Rightarrow>
          if a < 0 then (NaN, [InvalidValue])
          else if a = 0 then (Zero False, [])
          else (sqrt64 a, []))"

text \<open>
  \<^verbatim>\<open>-1.0 / 3.0\<close> is the double nearest to minus one third. It is finite, negative and
  not a whole number.
\<close>

definition exponent :: rat where
  "exponent = - 6004799503160661 / 18014398509481984"

text \<open>
  \<^verbatim>\<open>x ** y\<close> for an exponent \<open>y\<close> that is finite, negative and not a whole number, as the
  one of the source is. NumPy leaves it to the \<^verbatim>\<open>pow\<close> of the platform: a zero of either
  sign gives plus infinity and signals a division by zero, a negative number is invalid
  and gives not-a-number, an infinity of either sign gives plus zero. What \<^verbatim>\<open>pow\<close>
  returns at a positive finite number is not fixed by the standard; the function
  \<open>c_pow\<close> stands for it.
\<close>

definition np_power :: "(rat \<Rightarrow> rat \<Rightarrow> f64) \<Rightarrow> f64 \<Rightarrow> rat \<Rightarrow> f64 \<times> signal list" where
  "np_power c_pow x y =
     (case x of
        NaN \<Rightarrow> (NaN, [])
      | Zero s \<Rightarrow> (Infinite False, [DivideByZero])
      | Infinite s \<Rightarrow> (Zero False, [])
      | Finite a \<Rightarrow>
          if a = 0 then (Infinite False, [DivideByZero])
          else if a < 0 then (NaN, [InvalidValue])
          else (c_pow a y, []))"

text \<open>One operation after another: the signals add up in the order they are raised.\<close>

definition after :: "f64 \<times> signal list \<Rightarrow> (f64 \<Rightarrow> f64 \<times> signal list) \<Rightarrow> f64 \<times> signal list" where
  "after r f = (case r of (x, w) \<Rightarrow> (case f x of (y, w') \<Rightarrow> (y, w @ w')))"

section \<open>The notebook on FITS X-ray images\<close>

subsection \<open>The derived fields\<close>

text \<open>
  The notebook defines three functions and registers them as derived fields. A field
  function is given the data object of the library and works item by item on the arrays
  it reads from it, so it is modelled at one item: \<open>stored\<close> is the double a field of
  the file has there, \<open>parameters\<close> the field parameters that are set, \<open>platform_pow\<close>
  the \<^verbatim>\<open>pow\<close> of the platform at a positive finite base. A function returns the double
  it computes and the signals raised on the way; it raises nothing but the type error of
  multiplying by a parameter that is not set and reads as \<^verbatim>\<open>None\<close>.
\<close>

record field_data =
  stored :: "key \<Rightarrow> f64"
  parameters :: "string \<Rightarrow> f64 option"
  platform_pow :: "rat \<Rightarrow> rat \<Rightarrow> f64"

definition get_field_parameter :: "field_data \<Rightarrow> string \<Rightarrow> f64 option" where
  "get_field_parameter data name = parameters data name"

text \<open>
  \<^verbatim>\<open>exposure_time = data.get_field_parameter("exposure_time")\<close>,
  \<^verbatim>\<open>return data["fits", "flux"] * data["fits", "pixel"] * exposure_time\<close>
\<close>

definition counts :: "field_data \<Rightarrow> py_error + f64 \<times> signal list" where
  "counts data =
     (case get_field_parameter data ''exposure_time'' of
        None \<Rightarrow> Inl TypeError
      | Some exposure_time \<Rightarrow>
          Inr (after (multiply (stored data (K2 ''fits'' ''flux'')) (stored data (K2 ''fits'' ''pixel'')))
                 (\<lambda>p. multiply p exposure_time)))"

text \<open>
  \<^verbatim>\<open>data[k]\<close> as the two later functions use it: the field registered as
  \<^verbatim>\<open>("gas", "counts")\<close> is computed by \<open>counts\<close>, any other is read from the file.
\<close>

definition data_item :: "field_data \<Rightarrow> key \<Rightarrow> py_error + f64 \<times> signal list" where
  "data_item data k =
     (if k = K2 ''gas'' ''counts'' then counts data else Inr (stored data k, []))"

text \<open>\<^verbatim>\<open>return np.sqrt(data["gas", "counts"]) * data["fits", "projected_temperature"]\<close>\<close>

definition pp :: "field_data \<Rightarrow> py_error + f64 \<times> signal list" where
  "pp data =
     (case data_item data (K2 ''gas'' ''counts'') of
        Inl e \<Rightarrow> Inl e
      | Inr c \<Rightarrow>
          (case data_item data (K2 ''fits'' ''projected_temperature'') of
             Inl e \<Rightarrow> Inl e
           | Inr t \<Rightarrow> Inr (after (after c np_sqrt) (\<lambda>r. after t (multiply r)))))"

text \<open>
  \<^verbatim>\<open>return data["fits", "projected_temperature"] * data["gas", "counts"] ** (-1.0 / 3.0)\<close>
\<close>

definition pe :: "field_data \<Rightarrow> py_error + f64 \<times> signal list" where
  "pe data =
     (case data_item data (K2 ''fits'' ''projected_temperature'') of
        Inl e \<Rightarrow> Inl e
      | Inr t \<Rightarrow>
          (case data_item data (K2 ''gas'' ''counts'') of
             Inl e \<Rightarrow> Inl e
           | Inr c \<Rightarrow>
               Inr (after t (\<lambda>tv. after (after c (\<lambda>cv. np_power (platform_pow data) cv exponent))
                                    (multiply tv)))))"

subsection \<open>The calls\<close>

text \<open>
  The calls the cells make. The three field functions run inside the library, when it
  evaluates a field it has been asked for; what they read there is modelled above and
  is not part of this list.
\<close>

definition fits_nb :: "inputs \<Rightarrow> api_call list" where
  "fits_nb inp =
     [Call ''yt'' ''load'',
      Call ''ds'' ''add_field'', Call ''ds'' ''add_field'', Call ''ds'' ''add_field'',
      Call ''ds'' ''quan'',
      Call ''yt'' ''SlicePlot'', Call ''slc'' ''set_log'', Call ''slc'' ''set_zlim'',
      Call ''slc'' ''set_log'', Call ''slc'' ''set_log'', Call ''slc'' ''set_width'',
      Call ''slc'' ''show'',
      Call [] ''PlotWindowWCS'', Call ''wcs_slc'' ''show'',
      Call ''ds'' ''find_max'', Call ''ds'' ''sphere'', Call ''my_sphere'' ''set_field_parameter'',
      Call ''yt'' ''ProfilePlot'', Call ''radial_profile'' ''set_log'',
      Call ''radial_profile'' ''set_log'', Call ''radial_profile'' ''set_log'',
      Call ''radial_profile'' ''set_xlim'', Call ''radial_profile'' ''show'',
      Call ''yt'' ''PhasePlot'', Call ''phase_plot'' ''show'',
      Call [] ''ds9_region'',
      Call ''quantities'' ''weighted_average_quantity'',
      Call ''yt'' ''ProjectionPlot'', Call ''prj'' ''set_log'', Call ''prj'' ''set_log'',
      Call ''prj'' ''set_log'', Call ''prj'' ''set_width'', Call ''prj'' ''show'',
      Call ''yt'' ''load'',
      Call [] ''setup_counts_fields'',
      Call ''ds2'' ''all_data'',
      Call ''yt'' ''SlicePlot'', Call ''slc'' ''pan'', Call ''slc'' ''set_width'',
      Call ''slc'' ''show'',
      Call ''yt'' ''SlicePlot'', Call ''slc'' ''pan'', Call ''slc'' ''set_width'',
      Call ''slc'' ''set_zlim'', Call ''slc'' ''set_zlim'', Call ''slc'' ''show'']"

section \<open>The supplied content\<close>

text \<open>
  The source documents in the order they are supplied. A notebook is the functions it
  defines, by name, and the calls it makes on a run.
\<close>

datatype document =
    Manifest "string list"
  | Notebook "string list" "inputs \<Rightarrow> api_call list"
  | Config pre_commit_config

definition supplied_content :: "document list" where
  "supplied_content =
     [Manifest manifest_lines,
      Notebook [] array_nb,
      Notebook [] particle_nb,
      Notebook [] trajectories_nb,
      Notebook [''_counts'', ''_pp'', ''_pe''] fits_nb,
      Config pre_commit_config_yaml]"

fun functions_defined :: "document \<Rightarrow> string list" where
  "functions_defined (Notebook defs run) = defs"
| "functions_defined d = []"

fun calls_made :: "inputs \<Rightarrow> document \<Rightarrow> api_call list" where
  "calls_made inp (Notebook defs run) = run inp"
| "calls_made inp d = []"

definition all_calls :: "inputs \<Rightarrow> api_call list" where
  "all_calls inp = concat (map (calls_made inp) supplied_content)"

section \<open>Notions the properties are stated with\<close>

subsection \<open>Grid dictionaries\<close>

text \<open>
  A grid dictionary has the stated shape when its four property keys are bound to two
  vectors of three coordinates, a level that is not negative, and a vector of three
  positive cell counts.
\<close>

definition well_formed_grid :: "pydict \<Rightarrow> bool" where
  "well_formed_grid g =
     (case (map_of g (K ''left_edge''), map_of g (K ''right_edge''),
            map_of g (K ''level''), map_of g (K ''dimensions'')) of
        (Some (FloatList l), Some (FloatList r), Some (IntV n), Some (IntList d)) \<Rightarrow>
          length l = 3 \<and> length r = 3 \<and> 0 \<le> n \<and> length d = 3 \<and> list_all (\<lambda>c. 0 < c) d
      | _ \<Rightarrow> False)"

text \<open>The region of a grid, one interval for each axis, and the width of its cells.\<close>

definition region :: "pydict \<Rightarrow> (rat \<times> rat) list option" where
  "region g =
     (case (map_of g (K ''left_edge''), map_of g (K ''right_edge'')) of
        (Some (FloatList l), Some (FloatList r)) \<Rightarrow> Some (zip l r)
      | _ \<Rightarrow> None)"

definition cell_widths :: "pydict \<Rightarrow> rat list option" where
  "cell_widths g =
     (case (region g, map_of g (K ''dimensions'')) of
        (Some lr, Some (IntList d)) \<Rightarrow> Some (map (\<lambda>((a, b), n). (b - a) / of_int n) (zip lr d))
      | _ \<Rightarrow> None)"

definition inside :: "(rat \<times> rat) list \<Rightarrow> (rat \<times> rat) list \<Rightarrow> bool" where
  "inside inner outer = list_all2 (\<lambda>(a, b) (c, d). c \<le> a \<and> b \<le> d) inner outer"

subsection \<open>Fields and particle positions\<close>

text \<open>
  The fields of a loading call are the values of its data dictionary; in a grid
  dictionary they are the values of the keys other than the four properties.
\<close>

definition grid_properties :: "key list" where
  "grid_properties = [K ''left_edge'', K ''right_edge'', K ''level'', K ''dimensions'']"

definition grid_fields :: "pydict \<Rightarrow> pyval list" where
  "grid_fields g = map snd (filter (\<lambda>(k, v). k \<notin> set grid_properties) g)"

fun fields_supplied :: "api_call \<Rightarrow> pyval list" where
  "fields_supplied (LoadUniformGrid d dims) = map snd d"
| "fields_supplied (LoadAmrGrids gs dims) = concat (map grid_fields gs)"
| "fields_supplied (LoadParticles d) = map snd d"
| "fields_supplied (Call receiver name) = []"

fun unit_pair :: "pyval \<Rightarrow> bool" where
  "unit_pair (Tuple (Array a) (Str u)) = True"
| "unit_pair v = False"

fun bare_array :: "pyval \<Rightarrow> bool" where
  "bare_array (Array a) = True"
| "bare_array v = False"

text \<open>
  \<open>fields_as_loaded c\<close>: the fields of a call to \<^verbatim>\<open>load_particles\<close> are bare arrays, those
  of the other two loading calls are pairs of an array and a unit string.
\<close>

fun fields_as_loaded :: "api_call \<Rightarrow> bool" where
  "fields_as_loaded (LoadParticles d) = list_all bare_array (map snd d)"
| "fields_as_loaded c = list_all unit_pair (fields_supplied c)"

fun array_of :: "pyval \<Rightarrow> ndarray option" where
  "array_of (Array a) = Some a"
| "array_of (Tuple (Array a) u) = Some a"
| "array_of v = None"

definition position_key :: "string option \<Rightarrow> string \<Rightarrow> key" where
  "position_key ptype axis =
     (case ptype of
        None \<Rightarrow> K (''particle_position_'' @ axis)
      | Some t \<Rightarrow> K2 t (''particle_position_'' @ axis))"

text \<open>The shapes of the three position arrays of a particle type, where they are bound.\<close>

definition position_shapes :: "pydict \<Rightarrow> string option \<Rightarrow> nat list option list" where
  "position_shapes d ptype =
     map (\<lambda>axis. map_option shape (Option.bind (map_of d (position_key ptype axis)) array_of))
       [''x'', ''y'', ''z'']"

definition positions_of_length :: "pydict \<Rightarrow> string option \<Rightarrow> nat \<Rightarrow> bool" where
  "positions_of_length d ptype n = (position_shapes d ptype = [Some [n], Some [n], Some [n]])"

subsection \<open>Inputs to run the notebooks on\<close>

definition no_draws :: generator where
  "no_draws = (\<lambda>i. 0)"

definition inputs0 :: inputs where
  "inputs0 = \<lparr>prng = no_draws, normal = no_draws, h5_items = [], fits_hdus = [], orbit_fns = []\<rparr>"

subsection \<open>Particle types\<close>

text \<open>
  The particle types a dictionary speaks of are read off its keys: a position field
  under a plain name belongs to the default type, one under a pair to the type the pair
  names. The positions of a type agree when all three arrays are bound, have one axis
  and the same length.
\<close>

definition position_names :: "string list" where
  "position_names = [''particle_position_x'', ''particle_position_y'', ''particle_position_z'']"

fun position_type :: "key \<Rightarrow> string option option" where
  "position_type (K name) = (if name \<in> set position_names then Some None else None)"
| "position_type (K2 t name) = (if name \<in> set position_names then Some (Some t) else None)"

definition particle_types :: "pydict \<Rightarrow> string option list" where
  "particle_types d = remdups (List.map_filter position_type (map fst d))"

definition positions_agree :: "pydict \<Rightarrow> string option \<Rightarrow> bool" where
  "positions_agree d ptype =
     (case position_shapes d ptype of
        [Some [a], Some [b], Some [c]] \<Rightarrow> a = b \<and> b = c
      | _ \<Rightarrow> False)"

fun dictionaries :: "api_call \<Rightarrow> pydict list" where
  "dictionaries (LoadUniformGrid d dims) = [d]"
| "dictionaries (LoadAmrGrids gs dims) = gs"
| "dictionaries (LoadParticles d) = [d]"
| "dictionaries (Call receiver name) = []"

definition positions_consistent :: "api_call \<Rightarrow> bool" where
  "positions_consistent c =
     list_all (\<lambda>d. list_all (positions_agree d) (particle_types d)) (dictionaries c)"

text \<open>\<open>all_unit_pairs c\<close>: every field of the call is a pair of an array and a unit string.\<close>

definition all_unit_pairs :: "api_call \<Rightarrow> bool" where
  "all_unit_pairs c = list_all unit_pair (fields_supplied c)"

definition entry_points :: "string list" where
  "entry_points =
     [''load_uniform_grid'', ''load_amr_grids'', ''load_particles'', ''SlicePlot'',
      ''ProjectionPlot'', ''particle_trajectories'', ''ds9_region'']"

subsection \<open>Forwarding\<close>

text \<open>
  What the library hands to a field function is the items of the stored fields and the
  field parameters that are set. A function only forwards when whatever it returns is
  one of these.
\<close>

definition supplied :: "field_data \<Rightarrow> f64 set" where
  "supplied data = range (stored data) \<union> ran (parameters data)"

definition forwards :: "(field_data \<Rightarrow> py_error + f64 \<times> signal list) \<Rightarrow> bool" where
  "forwards f = (\<forall>data. case f data of Inl e \<Rightarrow> True | Inr (v, w) \<Rightarrow> v \<in> supplied data)"


text \<open>
  Data objects to run the field functions on. In each the exposure time is set and
  the items are the same for every field but the flux: 4 throughout in the first; in the
  others 1, with a flux given. The \<^verbatim>\<open>pow\<close> of the platform returns 1 at base 1 whatever
  the exponent; the statements below evaluate it at no other positive finite base, and
  \<open>pow_of_one\<close>, which leaves every other value open, stands in for it.
\<close>

definition pow_of_one :: "rat \<Rightarrow> rat \<Rightarrow> f64" where
  "pow_of_one a y = (if a = 1 then Finite 1 else NaN)"

definition sample_data :: field_data where
  "sample_data =
     \<lparr>stored = (\<lambda>k. Finite 4), parameters = [''exposure_time'' \<mapsto> Finite 4],
      platform_pow = pow_of_one\<rparr>"



text \<open>Faint data: every item is \<open>2^(- 600)\<close>, a double whose square is below the least double.\<close>

definition faint_data :: field_data where
  "faint_data =
     \<lparr>stored = (\<lambda>k. Finite (pow2 (- 600))),
      parameters = [''exposure_time'' \<mapsto> Finite 1],
      platform_pow = pow_of_one\<rparr>"

text \<open>
  Inputs under which every cell of the array notebook reaches its call: the HDF5 file
  has a \<^verbatim>\<open>Density\<close> item, the FITS file three velocity images, the \<^verbatim>\<open>glob\<close> finds a file.
\<close>

definition sample_inputs :: inputs where
  "sample_inputs =
     \<lparr>prng = no_draws, normal = no_draws,
      h5_items = [(''Density'', np_ones 1)],
      fits_hdus =
        [\<lparr>hdu_name = ''X-VELOCITY'', hdu_data = Some (np_ones 1)\<rparr>,
         \<lparr>hdu_name = ''Y-VELOCITY'', hdu_data = Some (np_ones 1)\<rparr>,
         \<lparr>hdu_name = ''Z-VELOCITY'', hdu_data = Some (np_ones 1)\<rparr>],
      orbit_fns = [''orbit_hdf5_chk_0000'']\<rparr>"

section \<open>The manifest: proofs\<close>

lemma include_fold:
  "set (foldl (\<lambda>fs pat. include_pattern (m pat) allfiles fs) files pats) =
     set files \<union> {p \<in> set allfiles. list_ex (\<lambda>pat. m pat p) pats}"
  by (induction pats arbitrary: files) (auto simp: include_pattern_def)

lemma exclude_fold:
  "set (foldl (\<lambda>fs pat. exclude_pattern (m pat) fs) files pats) =
     {p \<in> set files. \<not> list_ex (\<lambda>pat. m pat p) pats}"
  by (induction pats arbitrary: files) (auto simp: exclude_pattern_def)

lemma include_pattern_set:
  "set (include_pattern m allfiles files) = set files \<union> {p \<in> set allfiles. m p}"
  by (auto simp: include_pattern_def)

lemma exclude_pattern_set:
  "set (exclude_pattern m files) = {p \<in> set files. \<not> m p}"
  by (auto simp: exclude_pattern_def)

text \<open>One rule judges every candidate path on its own.\<close>

lemma process_rule_set:
  assumes "set files \<subseteq> set allfiles"
  shows "set (process_rule allfiles files r) = {p \<in> set allfiles. admits r p (p \<in> set files)}"
  using assms
  by (cases r) (auto simp: include_fold exclude_fold include_pattern_set exclude_pattern_set)

lemma process_template_set:
  "set files \<subseteq> set allfiles \<Longrightarrow>
   set (process_template allfiles files rules) =
     {p \<in> set allfiles. foldl (\<lambda>b r. admits r p b) (p \<in> set files) rules}"
proof (induction rules arbitrary: files)
  case Nil
  then show ?case by (auto simp: process_template_def)
next
  case (Cons r rules)
  have sub: "set (process_rule allfiles files r) \<subseteq> set allfiles"
    using process_rule_set [OF Cons.prems] by auto
  have "process_template allfiles files (r # rules) =
        process_template allfiles (process_rule allfiles files r) rules"
    by (simp add: process_template_def)
  then show ?case
    using Cons.IH [OF sub] process_rule_set [OF Cons.prems] by auto
qed

lemma ship_set: "set (ship allfiles) = {p \<in> set allfiles. ships p}"
  by (simp add: ship_def ships_def process_template_set)

lemma ships_cheatsheet_tex: "ships ''doc/cheatsheet.tex''"
  by code_simp

lemma ships_cheatsheet_pdf: "\<not> ships ''doc/cheatsheet.pdf''"
  by code_simp

text \<open>A pattern of a recursive rule matches whole file names, at any depth below the directory.\<close>

lemma recursive_include_whole_names:
  "ships ''yt/README.md'' \<and> ships ''yt/a/b/c.py'' \<and> \<not> ships ''yt/xREADME'' \<and> \<not> ships ''yt/a/b/c.pyc''"
  by code_simp

lemma cheatsheet_pdf_verdicts:
  "\<not> foldl (\<lambda>b r. admits r ''doc/cheatsheet.pdf'' b) False (take 14 (read_template manifest_lines))"
  "foldl (\<lambda>b r. admits r ''doc/cheatsheet.pdf'' b) False (take 15 (read_template manifest_lines))"
  "foldl (\<lambda>b r. admits r ''doc/cheatsheet.pdf'' b) False (take 16 (read_template manifest_lines))"
  "\<not> foldl (\<lambda>b r. admits r ''doc/cheatsheet.pdf'' b) False (take 17 (read_template manifest_lines))"
  by code_simp+

lemma manifest_rules_15_17:
  "read_template manifest_lines ! 14 =
     RecursiveInclude ''doc'' [''*.h'', ''*.c'', ''*.sh'', ''*.svgz'', ''*.pdf'', ''*.svg'', ''*.pyx'']"
  "read_template manifest_lines ! 16 = Exclude [''doc/cheatsheet.pdf'']"
  by code_simp+

lemma manifest_lines_are_directives: "list_all (\<lambda>l. blank l \<or> directive l) manifest_lines"
  by code_simp

lemma manifest_command_words:
  "remdups (map command_word (read_template manifest_lines)) =
     [''include'', ''prune'', ''recursive-include'', ''exclude'']"
  by code_simp

text \<open>
  C7. Whatever the file tree, if it holds both \<^verbatim>\<open>doc/cheatsheet.tex\<close> and
  \<^verbatim>\<open>doc/cheatsheet.pdf\<close> then the manifest ships the first and not the second. The
  second is not on the list after fourteen rules; the fifteenth,
  \<^verbatim>\<open>recursive-include doc ... *.pdf\<close>, puts it there, and the seventeenth,
  \<^verbatim>\<open>exclude doc/cheatsheet.pdf\<close>, takes it off for good.
\<close>

theorem cheatsheet_tex_ships_pdf_does_not:
  assumes "''doc/cheatsheet.tex'' \<in> set allfiles" and "''doc/cheatsheet.pdf'' \<in> set allfiles"
  shows "''doc/cheatsheet.tex'' \<in> set (ship allfiles)
       \<and> ''doc/cheatsheet.pdf'' \<notin> set (ship allfiles)
       \<and> read_template manifest_lines ! 14 =
           RecursiveInclude ''doc'' [''*.h'', ''*.c'', ''*.sh'', ''*.svgz'', ''*.pdf'', ''*.svg'', ''*.pyx'']
       \<and> read_template manifest_lines ! 16 = Exclude [''doc/cheatsheet.pdf'']
       \<and> ''doc/cheatsheet.pdf'' \<notin> set (process_template allfiles [] (take 14 (read_template manifest_lines)))
       \<and> ''doc/cheatsheet.pdf'' \<in> set (process_template allfiles [] (take 15 (read_template manifest_lines)))
       \<and> ''doc/cheatsheet.pdf'' \<in> set (process_template allfiles [] (take 16 (read_template manifest_lines)))
       \<and> ''doc/cheatsheet.pdf'' \<notin> set (process_template allfiles [] (take 17 (read_template manifest_lines)))"
proof -
  have tex: "''doc/cheatsheet.tex'' \<in> set (ship allfiles)"
    using assms(1) ships_cheatsheet_tex by (simp add: ship_set)
  have pdf: "''doc/cheatsheet.pdf'' \<notin> set (ship allfiles)"
    using ships_cheatsheet_pdf by (simp add: ship_set)
  have steps:
    "''doc/cheatsheet.pdf'' \<notin> set (process_template allfiles [] (take 14 (read_template manifest_lines)))"
    "''doc/cheatsheet.pdf'' \<in> set (process_template allfiles [] (take 15 (read_template manifest_lines)))"
    "''doc/cheatsheet.pdf'' \<in> set (process_template allfiles [] (take 16 (read_template manifest_lines)))"
    "''doc/cheatsheet.pdf'' \<notin> set (process_template allfiles [] (take 17 (read_template manifest_lines)))"
    using assms(2) cheatsheet_pdf_verdicts by (simp_all add: process_template_set)
  from tex pdf steps manifest_rules_15_17 show ?thesis by simp
qed

theorem cheatsheet_tex_ships_pdf_does_not_witness:
  "''doc/cheatsheet.tex'' \<in> set [''doc/cheatsheet.pdf'', ''doc/cheatsheet.tex'']
   \<and> ''doc/cheatsheet.pdf'' \<in> set [''doc/cheatsheet.pdf'', ''doc/cheatsheet.tex'']
   \<and> ''doc/cheatsheet.tex'' \<in> set (ship [''doc/cheatsheet.pdf'', ''doc/cheatsheet.tex''])
   \<and> ''doc/cheatsheet.pdf'' \<notin> set (ship [''doc/cheatsheet.pdf'', ''doc/cheatsheet.tex''])"
  using cheatsheet_tex_ships_pdf_does_not [of "[''doc/cheatsheet.pdf'', ''doc/cheatsheet.tex'']"]
  by simp

text \<open>
  C8. Every line of the manifest that is not blank parses as a directive of one of the
  four forms \<^verbatim>\<open>include\<close>, \<^verbatim>\<open>exclude\<close>, \<^verbatim>\<open>prune\<close> and \<^verbatim>\<open>recursive-include\<close>, with at least
  one argument, and each of the four occurs. So the manifest is thirty rules, and they
  decide for every candidate path, one rule after the other, whether it ships: the files
  shipped from a tree are the files of the tree that \<open>ships\<close> holds of.
\<close>

theorem manifest_is_four_form_directives:
  "list_all (\<lambda>l. blank l \<or> directive l) manifest_lines
   \<and> list_all four_forms (read_template manifest_lines)
   \<and> length (read_template manifest_lines) = 30
   \<and> set (map command_word (read_template manifest_lines)) =
       {''include'', ''exclude'', ''prune'', ''recursive-include''}
   \<and> set (ship allfiles) = {p \<in> set allfiles. ships p}"
proof -
  have a: "list_all (\<lambda>l. blank l \<or> directive l) manifest_lines"
    by (rule manifest_lines_are_directives)
  have b: "list_all four_forms (read_template manifest_lines)"
    by code_simp
  have c: "length (read_template manifest_lines) = 30"
    by code_simp
  have "set (map command_word (read_template manifest_lines)) =
        set (remdups (map command_word (read_template manifest_lines)))"
    by simp
  also have "\<dots> = set [''include'', ''prune'', ''recursive-include'', ''exclude'']"
    by (simp only: manifest_command_words)
  finally have d: "set (map command_word (read_template manifest_lines)) =
       {''include'', ''exclude'', ''prune'', ''recursive-include''}"
    by auto
  from a b c d ship_set show ?thesis by simp
qed

section \<open>The notebooks: proofs\<close>

lemmas run_defs = prng_random_def prng_uniform_def np_random_normal_def draw_def split_def Let_def

lemmas position_defs = positions_consistent_def particle_types_def positions_agree_def
  position_shapes_def position_key_def position_names_def

lemma upt_3: "[0..<3] = [0, 1, 2]"
  by (simp add: upt_rec)

subsection \<open>The grids of the AMR example\<close>

text \<open>The grid dictionaries as \<^verbatim>\<open>load_amr_grids\<close> receives them, whatever the draws.\<close>

lemma amr_grids_eq:
  "fst (amr_grids g) =
     [[(K ''left_edge'', FloatList [0, 0, 0]),
       (K ''right_edge'', FloatList [1, 1, 1]),
       (K ''level'', IntV 0),
       (K ''dimensions'', IntList [32, 32, 32]),
       (K ''density'', Tuple (Array (scaled 1 (filled [32, 32, 32] g))) (Str ''g/cm**3'')),
       (K ''particle_position_x'', Tuple (Array empty_array) (Str ''code_length'')),
       (K ''particle_position_y'', Tuple (Array empty_array) (Str ''code_length'')),
       (K ''particle_position_z'', Tuple (Array empty_array) (Str ''code_length''))],
      [(K ''left_edge'', FloatList [1 / 4, 1 / 4, 1 / 4]),
       (K ''right_edge'', FloatList [3 / 4, 3 / 4, 3 / 4]),
       (K ''level'', IntV 1),
       (K ''dimensions'', IntList [32, 32, 32]),
       (K ''density'',
        Tuple (Array (scaled 2 (filled [32, 32, 32] (\<lambda>i. g (i + 32768))))) (Str ''g/cm**3'')),
       (K ''particle_position_x'',
        Tuple (Array (filled [1000] (\<lambda>i. 1 / 4 + g (65536 + i) / 2))) (Str ''code_length'')),
       (K ''particle_position_y'',
        Tuple (Array (filled [1000] (\<lambda>i. 1 / 4 + g (66536 + i) / 2))) (Str ''code_length'')),
       (K ''particle_position_z'',
        Tuple (Array (filled [1000] (\<lambda>i. 1 / 4 + g (67536 + i) / 2))) (Str ''code_length''))]]"
  by (simp add: amr_grids_def grid_data_def grid_density_def getitem_def setitem_def
     add_particles_def set_grid_item_def run_defs)

text \<open>
  C5. Each of the two grid dictionaries of the AMR example binds \<^verbatim>\<open>left_edge\<close> and
  \<^verbatim>\<open>right_edge\<close> to vectors of three coordinates, \<^verbatim>\<open>level\<close> to an integer that is not
  negative and \<^verbatim>\<open>dimensions\<close> to a vector of three positive cell counts: as the literal
  writes them, and still so when the density and particle fields have been added and the
  list is passed to \<^verbatim>\<open>load_amr_grids\<close>.
\<close>

theorem amr_grids_well_formed:
  "list_all well_formed_grid grid_data \<and> list_all well_formed_grid (fst (amr_grids g))"
  by (simp add: amr_grids_eq) (simp add: grid_data_def well_formed_grid_def)

text \<open>
  C6. In exact rational arithmetic the grid at level 0 covers the unit cube with 32
  cells along each axis, of width 1/32; the grid at level 1 covers the cube from 1/4 to
  3/4 with 32 cells along each axis, of width 1/64, half the width of the cells of
  level 0; and the region of level 1 lies inside the region of level 0.
\<close>

theorem amr_levels_resolution:
  "map region grid_data =
     [Some [(0, 1), (0, 1), (0, 1)], Some [(1 / 4, 3 / 4), (1 / 4, 3 / 4), (1 / 4, 3 / 4)]]
   \<and> map (\<lambda>g. getitem g (K ''level'')) grid_data = [Inr (IntV 0), Inr (IntV 1)]
   \<and> map (\<lambda>g. getitem g (K ''dimensions'')) grid_data =
       [Inr (IntList [32, 32, 32]), Inr (IntList [32, 32, 32])]
   \<and> map cell_widths grid_data = [Some [1 / 32, 1 / 32, 1 / 32], Some [1 / 64, 1 / 64, 1 / 64]]
   \<and> cell_widths (grid_data ! 1) = map_option (map (\<lambda>w. w / 2)) (cell_widths (grid_data ! 0))
   \<and> (case (region (grid_data ! 1), region (grid_data ! 0)) of
         (Some inner, Some outer) \<Rightarrow> inside inner outer
       | _ \<Rightarrow> False)"
  by (simp add: grid_data_def region_def cell_widths_def inside_def getitem_def)

subsection \<open>Particle positions\<close>

lemma normal_rows_shapes:
  "\<exists>x y z. fst (normal_rows c n g) = Inr (x, y, z) \<and> shape x = [n] \<and> shape y = [n] \<and> shape z = [n]"
  by (simp add: normal_rows_def unpack3_def rows_def scaled_def filled_def upt_3 run_defs)

lemma particle_nb_consistent: "list_all positions_consistent (particle_nb inp)"
  by (simp add: particle_nb_def normal_rows_def unpack3_def rows_def scaled_def filled_def upt_3
      run_defs particle_data_def particle_data2_def position_defs)

lemma unigrid_particles_consistent: "list_all positions_consistent (fst (unigrid_particles g))"
  by (simp add: unigrid_particles_def unigrid_particles_data_def load_uniform_grid_by_def
      field_shape_def getitem_def filled_def run_defs position_defs)

lemma amr_example_consistent: "list_all positions_consistent (fst (amr_example g))"
  by (simp add: amr_example_def amr_grids_eq split_def filled_def empty_array_def position_defs)

lemma typed_particles_consistent: "list_all positions_consistent (fst (typed_particles g))"
  by (simp add: typed_particles_def typed_particles_data_def load_uniform_grid_by_def
      field_shape_def getitem_def filled_def run_defs position_defs)

lemma particle_types_found:
  "particle_types (fst (unigrid_particles_data g)) = [None]
   \<and> map particle_types (fst (amr_grids g)) = [[None], [None]]
   \<and> particle_types (fst (typed_particles_data g)) = [Some ''red'', Some ''blue'']"
  by (simp add: typed_particles_data_def unigrid_particles_data_def amr_grids_eq run_defs position_defs)

text \<open>
  C10. In each example that supplies particle positions, the three position arrays of
  every particle type have one axis and the same length, whatever the draws. In the
  calls of the four examples every particle type that a dictionary speaks of has
  agreeing positions. The types and lengths are: the default type with 10000 particles
  in the uniform grid; the default type with no particle in the first grid of the AMR
  example and 1000 in the second; \<^verbatim>\<open>red\<close> with 10000 and \<^verbatim>\<open>blue\<close> with 20000; the default
  type with \<open>n_particles\<close> in the first particle dictionary; \<^verbatim>\<open>dm\<close> with
  \<open>n_dm_particles\<close> and \<^verbatim>\<open>star\<close> with \<open>n_star_particles\<close> in the second.
\<close>

theorem particle_positions_equal_length:
  "list_all positions_consistent
     (fst (unigrid_particles g1) @ fst (amr_example g2) @ fst (typed_particles g3) @ particle_nb inp)
   \<and> particle_types (fst (unigrid_particles_data g)) = [None]
   \<and> positions_of_length (fst (unigrid_particles_data g)) None 10000
   \<and> map particle_types (fst (amr_grids g)) = [[None], [None]]
   \<and> positions_of_length (fst (amr_grids g) ! 0) None 0
   \<and> positions_of_length (fst (amr_grids g) ! 1) None 1000
   \<and> particle_types (fst (typed_particles_data g)) = [Some ''red'', Some ''blue'']
   \<and> positions_of_length (fst (typed_particles_data g)) (Some ''red'') 10000
   \<and> positions_of_length (fst (typed_particles_data g)) (Some ''blue'') 20000
   \<and> (case fst (normal_rows c n_particles g) of
         Inl e \<Rightarrow> False
       | Inr pos \<Rightarrow> positions_of_length (particle_data pos) None n_particles)
   \<and> (case (fst (normal_rows c n_dm_particles g), fst (normal_rows c' n_star_particles g')) of
         (Inr posd, Inr poss) \<Rightarrow>
            positions_of_length (particle_data2 posd poss) (Some ''dm'') n_dm_particles
          \<and> positions_of_length (particle_data2 posd poss) (Some ''star'') n_star_particles
       | _ \<Rightarrow> False)"
proof -
  have traces: "list_all positions_consistent
     (fst (unigrid_particles g1) @ fst (amr_example g2) @ fst (typed_particles g3) @ particle_nb inp)"
    by (simp add: unigrid_particles_consistent amr_example_consistent typed_particles_consistent
        particle_nb_consistent)
  have a: "positions_of_length (fst (unigrid_particles_data g)) None 10000"
    by (simp add: unigrid_particles_data_def positions_of_length_def position_shapes_def
        position_key_def filled_def run_defs)
  have b: "positions_of_length (fst (amr_grids g) ! 0) None 0"
    by (simp add: amr_grids_eq positions_of_length_def position_shapes_def position_key_def
        filled_def empty_array_def)
  have c: "positions_of_length (fst (amr_grids g) ! 1) None 1000"
    by (simp add: amr_grids_eq positions_of_length_def position_shapes_def position_key_def
        filled_def)
  have d: "positions_of_length (fst (typed_particles_data g)) (Some ''red'') 10000"
    by (simp add: typed_particles_data_def positions_of_length_def position_shapes_def
        position_key_def filled_def run_defs)
  have e: "positions_of_length (fst (typed_particles_data g)) (Some ''blue'') 20000"
    by (simp add: typed_particles_data_def positions_of_length_def position_shapes_def
        position_key_def filled_def run_defs)
  have f: "(case fst (normal_rows c n_particles g) of
         Inl e \<Rightarrow> False
       | Inr pos \<Rightarrow> positions_of_length (particle_data pos) None n_particles)"
    using normal_rows_shapes [of c n_particles g]
    by (auto simp: particle_data_def positions_of_length_def position_shapes_def position_key_def)
  have h: "(case (fst (normal_rows c n_dm_particles g), fst (normal_rows c' n_star_particles g')) of
         (Inr posd, Inr poss) \<Rightarrow>
            positions_of_length (particle_data2 posd poss) (Some ''dm'') n_dm_particles
          \<and> positions_of_length (particle_data2 posd poss) (Some ''star'') n_star_particles
       | _ \<Rightarrow> False)"
    using normal_rows_shapes [of c n_dm_particles g] normal_rows_shapes [of c' n_star_particles g']
    by (auto simp: particle_data2_def positions_of_length_def position_shapes_def position_key_def)
  from traces a b c d e f h particle_types_found [of g] show ?thesis by simp
qed

subsection \<open>The fields of the loading calls\<close>

lemma setitem_values:
  "list_all P (map snd d) \<Longrightarrow> P v \<Longrightarrow> list_all P (map snd (setitem d k v))"
  by (induction d) (auto simp: setitem_def)

lemma delete_values:
  "list_all P (map snd d) \<Longrightarrow> list_all P (map snd (AList.delete k d))"
  by (induction d) auto

lemma map_of_value:
  "list_all P (map snd d) \<Longrightarrow> map_of d k = Some v \<Longrightarrow> P v"
  by (induction d) (auto split: if_splits)

lemma foldl_setitem_values:
  "list_all P (map snd d) \<Longrightarrow> list_all (\<lambda>x. P (val x)) xs \<Longrightarrow>
   list_all P (map snd (foldl (\<lambda>d x. setitem d (kf x) (val x)) d xs))"
  by (induction xs arbitrary: d) (auto simp: setitem_values)

lemma h5_data_values: "list_all unit_pair (map snd (h5_data items))"
proof -
  have "h5_data items =
        foldl (\<lambda>d x. setitem d (K (fst (fst x))) (Tuple (Array (snd (fst x))) (Str (snd x)))) []
          (zip items units)"
    by (simp add: h5_data_def split_def)
  moreover have "list_all (\<lambda>x. unit_pair (Tuple (Array (snd (fst x))) (Str (snd x)))) (zip items units)"
    by (simp add: list_all_iff)
  ultimately show ?thesis
    using foldl_setitem_values [of unit_pair "[]" "\<lambda>x. Tuple (Array (snd (fst x))) (Str (snd x))"
        "zip items units" "\<lambda>x. K (fst (fst x))"]
    by simp
qed

lemma fits_data_values:
  assumes "list_all (\<lambda>h. hdu_data h \<noteq> None) f"
  shows "list_all unit_pair (map snd (fits_data f))"
proof -
  have "list_all (\<lambda>h. unit_pair (hdu_value h)) f"
    using assms by (auto simp: list_all_iff hdu_value_def)
  then show ?thesis
    unfolding fits_data_def
    using foldl_setitem_values [of unit_pair "[]" hdu_value f "\<lambda>h. K (lower (hdu_name h))"]
    by simp
qed

lemma rename_values:
  assumes vals: "list_all P (map snd d)" and ren: "rename d new old = Inr d'"
  shows "list_all P (map snd d')"
proof (cases "map_of d (K old)")
  case None
  then show ?thesis using ren by (simp add: rename_def pop_def)
next
  case (Some v)
  then have d': "d' = setitem (AList.delete (K old) d) (K new) v"
    using ren by (simp add: rename_def pop_def)
  have "P v" using map_of_value [OF vals Some] .
  then show ?thesis
    unfolding d' using delete_values [OF vals] by (rule setitem_values [rotated])
qed

lemma rename_velocities_values:
  assumes "list_all P (map snd d)"
  shows "list_all P (map snd (rename_velocities d))"
proof (cases "rename d ''velocity_x'' ''x-velocity''")
  case (Inl e)
  then show ?thesis using assms by (simp add: rename_velocities_def)
next
  case d1: (Inr d1)
  have v1: "list_all P (map snd d1)" using rename_values [OF assms d1] .
  show ?thesis
  proof (cases "rename d1 ''velocity_y'' ''y-velocity''")
    case (Inl e)
    then show ?thesis using d1 v1 by (simp add: rename_velocities_def)
  next
    case d2: (Inr d2)
    have v2: "list_all P (map snd d2)" using rename_values [OF v1 d2] .
    show ?thesis
    proof (cases "rename d2 ''velocity_z'' ''z-velocity''")
      case (Inl e)
      then show ?thesis using d1 d2 v2 by (simp add: rename_velocities_def)
    next
      case d3: (Inr d3)
      have "list_all P (map snd d3)" using rename_values [OF v2 d3] .
      then show ?thesis using d1 d2 d3 by (simp add: rename_velocities_def)
    qed
  qed
qed

lemma load_uniform_grid_by_loaded:
  "list_all unit_pair (map snd data) \<Longrightarrow> list_all fields_as_loaded (load_uniform_grid_by data k)"
  by (simp add: load_uniform_grid_by_def split: sum.splits)

lemma h5_example_loaded: "list_all fields_as_loaded (h5_example items)"
  by (simp add: h5_example_def load_uniform_grid_by_loaded h5_data_values)

lemma fits_example_loaded:
  assumes "list_all (\<lambda>h. hdu_data h \<noteq> None) f"
  shows "list_all fields_as_loaded (fits_example f)"
proof -
  have "list_all fields_as_loaded
          (load_uniform_grid_by (rename_velocities (fits_data f)) (K ''velocity_x''))"
    using assms by (simp add: load_uniform_grid_by_loaded rename_velocities_values fits_data_values)
  then show ?thesis
    by (cases "load_uniform_grid_by (rename_velocities (fits_data f)) (K ''velocity_x'')")
       (simp_all add: fits_example_def)
qed

lemma unigrid_density_loaded: "list_all fields_as_loaded (fst (unigrid_density g))"
  by (simp add: unigrid_density_def run_defs)

lemma unigrid_particles_loaded: "list_all fields_as_loaded (fst (unigrid_particles g))"
  by (simp add: unigrid_particles_def unigrid_particles_data_def load_uniform_grid_by_loaded run_defs)

lemma amr_example_loaded: "list_all fields_as_loaded (fst (amr_example g))"
  by (simp add: amr_example_def amr_grids_eq split_def grid_fields_def grid_properties_def)

lemma species_example_loaded: "list_all fields_as_loaded (fst (species_example g))"
  by (simp add: species_example_def run_defs)

lemma typed_particles_loaded: "list_all fields_as_loaded (fst (typed_particles g))"
  by (simp add: typed_particles_def typed_particles_data_def load_uniform_grid_by_loaded run_defs)

lemma array_nb_loaded:
  assumes "list_all (\<lambda>h. hdu_data h \<noteq> None) (fits_hdus inp)"
  shows "list_all fields_as_loaded (array_nb inp)"
  using assms
  by (simp add: array_nb_def split_def Let_def unigrid_density_loaded unigrid_particles_loaded
      h5_example_loaded fits_example_loaded amr_example_loaded species_example_loaded
      typed_particles_loaded)

lemma particle_nb_loaded: "list_all fields_as_loaded (particle_nb inp)"
  by (simp add: particle_nb_def normal_rows_def unpack3_def rows_def scaled_def filled_def upt_3
      run_defs particle_data_def particle_data2_def)

lemma trajectories_nb_loaded: "list_all fields_as_loaded (trajectories_nb inp)"
  by (simp add: trajectories_nb_def)

lemma fits_nb_loaded: "list_all fields_as_loaded (fits_nb inp)"
  by (simp add: fits_nb_def)

lemma particle_nb_bare: "\<not> list_all all_unit_pairs (particle_nb inp)"
  by (simp add: particle_nb_def normal_rows_def unpack3_def rows_def scaled_def filled_def upt_3
      run_defs particle_data_def particle_data2_def all_unit_pairs_def)

lemma lower_names:
  "lower ''X-VELOCITY'' = ''x-velocity''" "lower ''Y-VELOCITY'' = ''y-velocity''"
  "lower ''Z-VELOCITY'' = ''z-velocity''" "lower ''PRIMARY'' = ''primary''"
  by code_simp+

text \<open>With three velocity images in the file the FITS cell loads them and plots.\<close>

lemma fits_example_sample:
  "fits_example (fits_hdus sample_inputs) =
     [LoadUniformGrid
        [(K ''velocity_x'', Tuple (Array (np_ones 1)) (Str ''km/s'')),
         (K ''velocity_y'', Tuple (Array (np_ones 1)) (Str ''km/s'')),
         (K ''velocity_z'', Tuple (Array (np_ones 1)) (Str ''km/s''))] [1],
      Call ''yt'' ''SlicePlot'', Call ''slc'' ''set_log'', Call ''slc'' ''set_log'',
      Call ''slc'' ''set_log'', Call ''slc'' ''annotate_velocity'', Call ''slc'' ''show'']"
  by (simp add: sample_inputs_def fits_example_def fits_data_def hdu_value_def lower_names
      setitem_def rename_velocities_def rename_def pop_def load_uniform_grid_by_def field_shape_def
      getitem_def np_ones_def filled_def)

text \<open>
  The loop over the FITS file does not skip a unit that has no image: such a unit is
  entered under its name with \<^verbatim>\<open>None\<close> in the place of the array.
\<close>

lemma header_only_unit_entered:
  "fits_data [\<lparr>hdu_name = ''PRIMARY'', hdu_data = None\<rparr>] =
     [(K ''primary'', Tuple NoneV (Str ''km/s''))]"
  by (simp add: fits_data_def hdu_value_def lower_names setitem_def)

text \<open>
  C1, as stated: every field of every loading call is a pair of an array and a unit
  string. It fails on the particle notebook, whose two dictionaries bind the field names
  to the arrays alone.
\<close>

theorem load_particles_fields_are_bare: "\<not> list_all all_unit_pairs (all_calls inputs0)"
  using particle_nb_bare [of inputs0]
  by (simp add: all_calls_def supplied_content_def)

text \<open>
  C1, amended. Every field passed to \<^verbatim>\<open>load_uniform_grid\<close> or \<^verbatim>\<open>load_amr_grids\<close> is a pair
  of an array and a unit string, a field of a grid dictionary being an entry other than
  the four grid properties; every field passed to \<^verbatim>\<open>load_particles\<close> is an array alone.
  This holds in every run in which each unit of the FITS file has an image.
\<close>

theorem loaded_fields_by_loader:
  assumes "list_all (\<lambda>h. hdu_data h \<noteq> None) (fits_hdus inp)"
  shows "list_all fields_as_loaded (all_calls inp)"
  using assms
  by (simp add: all_calls_def supplied_content_def array_nb_loaded particle_nb_loaded
      trajectories_nb_loaded fits_nb_loaded)

theorem loaded_fields_by_loader_witness:
  "list_all (\<lambda>h. hdu_data h \<noteq> None) (fits_hdus sample_inputs)
   \<and> list_all fields_as_loaded (all_calls sample_inputs)"
  using loaded_fields_by_loader [of sample_inputs] by (simp add: sample_inputs_def)

subsection \<open>The entry points\<close>

lemma callee_array_nb:
  "''load_uniform_grid'' \<in> callee ` set (array_nb inp) \<and> ''load_amr_grids'' \<in> callee ` set (array_nb inp)"
  by (simp add: array_nb_def unigrid_density_def amr_example_def run_defs)

lemma callee_particle_nb: "''load_particles'' \<in> callee ` set (particle_nb inp)"
  by (simp add: particle_nb_def normal_rows_def unpack3_def rows_def scaled_def filled_def upt_3
      run_defs)

lemma callee_trajectories_nb: "''particle_trajectories'' \<in> callee ` set (trajectories_nb inp)"
  by (simp add: trajectories_nb_def)

lemma callee_fits_nb:
  "''SlicePlot'' \<in> callee ` set (fits_nb inp) \<and> ''ProjectionPlot'' \<in> callee ` set (fits_nb inp)
   \<and> ''ds9_region'' \<in> callee ` set (fits_nb inp)"
  by (simp add: fits_nb_def)

lemma callee_all_calls:
  "callee ` set (all_calls inp) =
     callee ` set (array_nb inp) \<union> callee ` set (particle_nb inp)
     \<union> callee ` set (trajectories_nb inp) \<union> callee ` set (fits_nb inp)"
  by (simp add: all_calls_def supplied_content_def image_Un Un_assoc)

text \<open>
  C4. Whatever the inputs of a run, each of \<^verbatim>\<open>load_uniform_grid\<close>, \<^verbatim>\<open>load_amr_grids\<close>,
  \<^verbatim>\<open>load_particles\<close>, \<^verbatim>\<open>SlicePlot\<close>, \<^verbatim>\<open>ProjectionPlot\<close>, \<^verbatim>\<open>particle_trajectories\<close> and
  \<^verbatim>\<open>ds9_region\<close> is called at least once by the notebooks.
\<close>

theorem entry_points_invoked: "set entry_points \<subseteq> set (map callee (all_calls inp))"
  using callee_array_nb [of inp] callee_particle_nb [of inp] callee_trajectories_nb [of inp]
    callee_fits_nb [of inp]
  by (simp add: entry_points_def callee_all_calls)

section \<open>The pre-commit configuration: proof\<close>

text \<open>
  C2. The supplied content holds, beside the manifest and the notebooks, a pre-commit
  configuration. It declares twelve hooks, among them the formatters
  \<^verbatim>\<open>black-jupyter\<close> and \<^verbatim>\<open>blacken-docs\<close> and the linters \<^verbatim>\<open>ruff\<close>, \<^verbatim>\<open>nbqa-ruff\<close> and
  \<^verbatim>\<open>cython-lint\<close>, and excludes seven paths. The manifest keeps the configuration file
  itself out of the source distribution.
\<close>

theorem pre_commit_configuration_supplied:
  "Config pre_commit_config_yaml \<in> set supplied_content
   \<and> hook_ids pre_commit_config_yaml =
       [''trailing-whitespace'', ''end-of-file-fixer'', ''no-commit-to-branch'',
        ''check-shebang-scripts-are-executable'', ''check-executables-have-shebangs'',
        ''check-yaml'', ''black-jupyter'', ''blacken-docs'', ''ruff'', ''nbqa-ruff'',
        ''rst-backticks'', ''cython-lint'']
   \<and> length (exclude pre_commit_config_yaml) = 7
   \<and> \<not> ships ''.pre-commit-config.yaml''"
proof -
  have "\<not> ships ''.pre-commit-config.yaml''"
    by code_simp
  then show ?thesis
    by (simp add: supplied_content_def hook_ids_def pre_commit_config_yaml_def plain_hook_def)
qed

section \<open>Double-precision arithmetic: proofs\<close>

subsection \<open>Whole numbers are computed exactly\<close>

lemma pow2n_power: "pow2n d = 2 ^ nat d"
proof (induction d rule: pow2n.induct)
  case (1 d)
  show ?case
  proof (cases "d \<le> 0")
    case True
    then show ?thesis by (subst pow2n.simps) simp
  next
    case pos: False
    show ?thesis
    proof (cases "even d")
      case True
      then obtain k where k: "d = 2 * k" by (auto elim: evenE)
      with pos have "0 < k" by simp
      have "pow2n d = pow2n (d div 2) * pow2n (d div 2)"
        using pos True by (subst pow2n.simps) (simp add: Let_def)
      also have "\<dots> = 2 ^ nat k * 2 ^ nat k"
        using "1.IH"(1) [OF pos True] k by simp
      also have "\<dots> = 2 ^ (nat k + nat k)"
        by (simp add: power_add)
      also have "nat k + nat k = nat d"
        using k \<open>0 < k\<close> by simp
      finally show ?thesis .
    next
      case False
      have "pow2n d = 2 * pow2n (d - 1)"
        using pos False by (subst pow2n.simps) simp
      also have "\<dots> = 2 * 2 ^ nat (d - 1)"
        using "1.IH"(2) [OF pos False] by simp
      also have "\<dots> = 2 ^ Suc (nat (d - 1))"
        by simp
      also have "Suc (nat (d - 1)) = nat d"
        using pos by simp
      finally show ?thesis .
    qed
  qed
qed


lemma bit_length_bounds:
  "0 < n \<Longrightarrow> 1 \<le> bit_length n \<and> 2 ^ nat (bit_length n - 1) \<le> n \<and> n < 2 ^ nat (bit_length n)"
proof (induction n rule: bit_length.induct)
  case (1 n)
  show ?case
  proof (cases "18446744073709551616 \<le> n")
    case big: True
    define k where "k = n div 18446744073709551616"
    have kpos: "0 < k" using big by (simp add: k_def pos_imp_zdiv_pos_iff)
    have bl: "bit_length n = 64 + bit_length k"
      using big "1.prems" by (subst bit_length.simps) (simp add: k_def)
    have ih: "1 \<le> bit_length k \<and> 2 ^ nat (bit_length k - 1) \<le> k \<and> k < 2 ^ nat (bit_length k)"
      using "1.IH"(1) big "1.prems" kpos by (simp add: k_def)
    define r where "r = n mod 18446744073709551616"
    have dm: "n = 18446744073709551616 * k + r"
      by (simp add: k_def r_def)
    have md: "0 \<le> r" "r < 18446744073709551616"
      by (simp_all add: r_def)
    have lo: "18446744073709551616 * k \<le> n" and hi: "n < 18446744073709551616 * (k + 1)"
      using dm md by (simp_all add: algebra_simps)
    have e1: "nat (bit_length n - 1) = 64 + nat (bit_length k - 1)"
      using bl ih by linarith
    have e2: "nat (bit_length n) = 64 + nat (bit_length k)"
      using bl ih by linarith
    have p64: "(2::int) ^ 64 = 18446744073709551616" by simp
    have "2 ^ nat (bit_length n - 1) = 18446744073709551616 * (2::int) ^ nat (bit_length k - 1)"
      by (simp add: e1 power_add p64)
    also have "\<dots> \<le> 18446744073709551616 * k" using ih by simp
    finally have A: "2 ^ nat (bit_length n - 1) \<le> n" using lo by linarith
    have "k + 1 \<le> 2 ^ nat (bit_length k)" using ih by simp
    then have "18446744073709551616 * (k + 1) \<le> 18446744073709551616 * (2::int) ^ nat (bit_length k)"
      by simp
    also have "\<dots> = 2 ^ nat (bit_length n)"
      by (simp add: e2 power_add p64)
    finally have B: "n < 2 ^ nat (bit_length n)" using hi by linarith
    from A B bl ih show ?thesis by simp
  next
    case small: False
    define k where "k = n div 2"
    have bl: "bit_length n = 1 + bit_length k"
      using small "1.prems" by (subst bit_length.simps) (simp add: k_def)
    show ?thesis
    proof (cases "k = 0")
      case True
      then have "n = 1" using "1.prems" by (simp add: k_def)
      moreover have "bit_length k = 0" using True by (subst bit_length.simps) simp
      ultimately show ?thesis using bl by simp
    next
      case False
      then have kpos: "0 < k" using "1.prems" by (simp add: k_def)
      have ih: "1 \<le> bit_length k \<and> 2 ^ nat (bit_length k - 1) \<le> k \<and> k < 2 ^ nat (bit_length k)"
        using "1.IH"(2) small "1.prems" kpos by (simp add: k_def)
      define r where "r = n mod 2"
      have dm: "n = 2 * k + r"
        by (simp add: k_def r_def)
      have md: "0 \<le> r" "r < 2"
        by (simp_all add: r_def)
      have lo: "2 * k \<le> n" and hi: "n < 2 * (k + 1)"
        using dm md by (simp_all add: algebra_simps)
      have e1: "nat (bit_length n - 1) = Suc (nat (bit_length k - 1))"
        using bl ih by linarith
      have e2: "nat (bit_length n) = Suc (nat (bit_length k))"
        using bl ih by linarith
      have A: "2 ^ nat (bit_length n - 1) \<le> n" using ih lo by (simp add: e1)
      have "k + 1 \<le> 2 ^ nat (bit_length k)" using ih by simp
      then have B: "n < 2 ^ nat (bit_length n)" using hi by (simp add: e2)
      from A B bl ih show ?thesis by simp
    qed
  qed
qed


lemma pow2_nonneg: "0 \<le> d \<Longrightarrow> pow2 d = 2 ^ nat d"
  by (simp add: pow2_def pow2n_power)

lemma pow2_nonpos: "d \<le> 0 \<Longrightarrow> pow2 d = 1 / 2 ^ nat (- d)"
  by (cases "d = 0") (simp_all add: pow2_def pow2n_power)

lemma round_half_even_int: "round_half_even (of_int z) = z"
  by (simp add: round_half_even_def)

lemma bit_length_one: "bit_length 1 = 1"
  by (subst bit_length.simps, subst bit_length.simps) simp

lemma floor_log2_int:
  assumes "0 < m"
  shows "floor_log2 (of_int m) = bit_length m - 1"
proof -
  have b: "1 \<le> bit_length m" "2 ^ nat (bit_length m - 1) \<le> m"
    using bit_length_bounds [OF assms] by simp_all
  have "pow2 (bit_length m - 1) = 2 ^ nat (bit_length m - 1)"
    using b(1) by (simp add: pow2_nonneg)
  also have "\<dots> = of_int (2 ^ nat (bit_length m - 1))"
    by simp
  also have "\<dots> \<le> of_int m"
    using b(2) by (simp only: of_int_le_iff)
  finally show ?thesis
    by (simp add: floor_log2_def bit_length_one)
qed

lemma round64_nat:
  assumes pos: "0 < k" and small: "k < 2 ^ 53"
  shows "round64 (of_int k) = Finite (of_int k)" and "round64 (- of_int k) = Finite (- of_int k)"
proof -
  define d where "d = bit_length k - 1"
  have b: "0 \<le> d" "2 ^ nat d \<le> k" "k < 2 ^ nat (d + 1)"
    using bit_length_bounds [OF pos] by (simp_all add: d_def)
  have "(2::int) ^ nat d < 2 ^ 53"
    using b(2) small by linarith
  then have "nat d < 53"
    using power_less_imp_less_exp [of "2::int" "nat d" 53] by simp
  then have d52: "d \<le> 52"
    by linarith
  define j where "j = nat (52 - d)"
  have q: "pow2 (d - 52) = 1 / 2 ^ j"
    using d52 by (simp add: pow2_nonpos j_def)
  have a1: "(of_int k :: rat) \<noteq> 0" "\<bar>of_int k :: rat\<bar> = of_int k"
    using pos by simp_all
  have "(of_int k :: rat) < of_int (2 ^ 53)"
    using small by (simp only: of_int_less_iff)
  also have "(of_int (2 ^ 53) :: rat) \<le> 2 ^ 1024"
    by simp
  finally have big: "\<not> pow2 1024 \<le> (of_int k :: rat)"
    by (simp add: pow2_nonneg)
  have "pow2 (- 1022) \<le> 1"
    by (simp add: pow2_nonpos)
  also have "(1::rat) \<le> of_int k"
    using pos by simp
  finally have tiny: "\<not> (of_int k :: rat) < pow2 (- 1022)"
    by simp
  have quot: "(of_int k :: rat) / pow2 (d - 52) = of_int (k * 2 ^ j)"
    by (simp add: q)
  have n0: "k * 2 ^ j \<noteq> 0"
    using pos by simp
  have v: "of_int (k * 2 ^ j) * pow2 (d - 52) = (of_int k :: rat)"
    by (simp add: q)
  have fl: "floor_log2 (of_int k) = d"
    using floor_log2_int [OF pos] by (simp add: d_def)
  show "round64 (of_int k) = Finite (of_int k)"
    using a1 big tiny n0 pos
    by (simp add: round64_def Let_def fl quot round_half_even_int v del: of_int_mult of_int_power)
  have neg: "(- of_int k :: rat) \<noteq> 0" "\<bar>- of_int k :: rat\<bar> = of_int k" "(- of_int k :: rat) < 0"
    using pos by simp_all
  show "round64 (- of_int k) = Finite (- of_int k)"
    using neg big tiny n0 pos
    by (simp add: round64_def Let_def fl quot round_half_even_int v del: of_int_mult of_int_power)
qed

lemma round64_int:
  assumes "m \<noteq> 0" and "\<bar>m\<bar> < 2 ^ 53"
  shows "round64 (of_int m) = Finite (of_int m)"
proof (cases "0 < m")
  case True
  then show ?thesis using round64_nat(1) [of m] assms by simp
next
  case False
  then have "0 < - m" "- m < 2 ^ 53" using assms by simp_all
  then show ?thesis using round64_nat(2) [of "- m"] by simp
qed

lemma multiply_integers:
  assumes "i \<noteq> 0" and "j \<noteq> 0" and "\<bar>i * j\<bar> < 2 ^ 53"
  shows "multiply (Finite (of_int i)) (Finite (of_int j)) = (Finite (of_int (i * j)), [])"
proof -
  let ?x = "Finite (of_int i)" and ?y = "Finite (of_int j)"
  have arg: "(if negative ?x = negative ?y then magnitude ?x * magnitude ?y
              else - (magnitude ?x * magnitude ?y)) = of_int (i * j)"
    by (auto simp: abs_if not_less)
  have r: "round64 (of_int (i * j)) = Finite (of_int (i * j))"
    using assms by (intro round64_int) simp_all
  have z: "\<not> is_zero ?x" "\<not> is_zero ?y"
    using assms(1,2) by simp_all
  show ?thesis
    unfolding multiply_def Let_def arg r using z by simp
qed

subsection \<open>Rounding, underflow and overflow at work\<close>

lemma exponent_nearest: "round64 (- 1 / 3) = Finite exponent"
  by code_simp

lemma exponent_negative_fraction: "exponent < 0 \<and> of_int \<lfloor>exponent\<rfloor> \<noteq> exponent"
  by code_simp

lemma multiply_rounds_to_even:
  "multiply (Finite (1 + pow2 (- 52))) (Finite (1 + pow2 (- 52))) = (Finite (1 + pow2 (- 51)), [])"
  by code_simp

lemma multiply_underflows:
  "multiply (Finite (pow2 (- 600))) (Finite (pow2 (- 600))) = (Zero False, [])"
  by code_simp

lemma multiply_overflows:
  "multiply (Finite (10 ^ 300)) (Finite (10 ^ 10)) = (Infinite False, [Overflow])"
  by code_simp

section \<open>The derived fields: proofs\<close>

lemma counts_integers:
  assumes t: "get_field_parameter data ''exposure_time'' = Some (Finite (of_int k))"
    and f: "stored data (K2 ''fits'' ''flux'') = Finite (of_int i)"
    and p: "stored data (K2 ''fits'' ''pixel'') = Finite (of_int j)"
    and nz: "i \<noteq> 0" "j \<noteq> 0" "k \<noteq> 0"
    and small: "\<bar>i * j * k\<bar> < 2 ^ 53"
  shows "counts data = Inr (Finite (of_int (i * j * k)), [])"
proof -
  have "1 \<le> \<bar>k\<bar>"
    using nz(3) by simp
  then have "\<bar>i * j\<bar> * 1 \<le> \<bar>i * j\<bar> * \<bar>k\<bar>"
    by (intro mult_left_mono) simp_all
  then have ij: "\<bar>i * j\<bar> < 2 ^ 53"
    using small by (simp add: abs_mult)
  have m1: "multiply (Finite (of_int i)) (Finite (of_int j)) = (Finite (of_int (i * j)), [])"
    using nz(1,2) ij by (rule multiply_integers)
  have "i * j \<noteq> 0"
    using nz(1,2) by simp
  then have m2: "multiply (Finite (of_int (i * j))) (Finite (of_int k)) = (Finite (of_int (i * j * k)), [])"
    using nz(3) small by (rule multiply_integers)
  show ?thesis
    by (simp only: counts_def t f p option.case after_def m1 m2 prod.case append_Nil)
qed

lemma counts_sample: "counts sample_data = Inr (Finite 64, [])"
  by code_simp

lemma pp_sample: "pp sample_data = Inr (Finite 32, [])"
  by code_simp

lemma supplied_sample: "supplied sample_data = {Finite 4}"
  by (auto simp: supplied_def sample_data_def ran_def)

text \<open>
  C3, as stated: no function of the source files computes a result beyond forwarding to
  the library. It fails on \<^verbatim>\<open>_counts\<close>: handed the item 4.0 for every field and the
  exposure time 4.0, it returns 64.0, which the library never handed to it.
\<close>

theorem counts_does_not_forward:
  "counts sample_data = Inr (Finite 64, []) \<and> Finite 64 \<notin> supplied sample_data \<and> \<not> forwards counts"
proof -
  have "\<not> forwards counts"
  proof
    assume "forwards counts"
    then have "case counts sample_data of Inl e \<Rightarrow> True | Inr (v, w) \<Rightarrow> v \<in> supplied sample_data"
      unfolding forwards_def by blast
    then show False by (simp add: counts_sample supplied_sample)
  qed
  then show ?thesis by (simp add: counts_sample supplied_sample)
qed

text \<open>
  C3, amended. The functions the source files define are the three field functions
  of the FITS notebook and no other, and these compute, item by item and in double
  precision, from what the library supplies. With the exposure time set, \<^verbatim>\<open>_counts\<close> is
  the flux times the pixel field, rounded, times the exposure time, rounded; \<^verbatim>\<open>_pp\<close> is
  the square root of the counts times the projected temperature; \<^verbatim>\<open>_pe\<close> is the
  projected temperature times the counts to the power that is the double nearest -1/3.
  Where flux, pixel field and exposure time are whole numbers other than zero whose product
  is below \<open>2^53\<close> in size, the counts are that product exactly and no signal is raised.
\<close>

theorem derived_fields_compute:
  assumes "get_field_parameter data ''exposure_time'' = Some t"
  shows "concat (map functions_defined supplied_content) = [''_counts'', ''_pp'', ''_pe'']
     \<and> counts data =
         Inr (after (multiply (stored data (K2 ''fits'' ''flux'')) (stored data (K2 ''fits'' ''pixel'')))
                (\<lambda>p. multiply p t))
     \<and> pp data =
         Inr (after (after (after (multiply (stored data (K2 ''fits'' ''flux'')) (stored data (K2 ''fits'' ''pixel'')))
                              (\<lambda>p. multiply p t))
                       np_sqrt)
                (\<lambda>r. multiply r (stored data (K2 ''fits'' ''projected_temperature''))))
     \<and> pe data =
         Inr (after (after (after (multiply (stored data (K2 ''fits'' ''flux'')) (stored data (K2 ''fits'' ''pixel'')))
                              (\<lambda>p. multiply p t))
                       (\<lambda>c. np_power (platform_pow data) c exponent))
                (multiply (stored data (K2 ''fits'' ''projected_temperature''))))
     \<and> (\<forall>i j k. stored data (K2 ''fits'' ''flux'') = Finite (of_int i)
              \<and> stored data (K2 ''fits'' ''pixel'') = Finite (of_int j)
              \<and> t = Finite (of_int k)
              \<and> i \<noteq> 0 \<and> j \<noteq> 0 \<and> k \<noteq> 0 \<and> \<bar>i * j * k\<bar> < 2 ^ 53
            \<longrightarrow> counts data = Inr (Finite (of_int (i * j * k)), []))"
proof -
  have composed:
    "concat (map functions_defined supplied_content) = [''_counts'', ''_pp'', ''_pe'']
     \<and> counts data =
         Inr (after (multiply (stored data (K2 ''fits'' ''flux'')) (stored data (K2 ''fits'' ''pixel'')))
                (\<lambda>p. multiply p t))
     \<and> pp data =
         Inr (after (after (after (multiply (stored data (K2 ''fits'' ''flux'')) (stored data (K2 ''fits'' ''pixel'')))
                              (\<lambda>p. multiply p t))
                       np_sqrt)
                (\<lambda>r. multiply r (stored data (K2 ''fits'' ''projected_temperature''))))
     \<and> pe data =
         Inr (after (after (after (multiply (stored data (K2 ''fits'' ''flux'')) (stored data (K2 ''fits'' ''pixel'')))
                              (\<lambda>p. multiply p t))
                       (\<lambda>c. np_power (platform_pow data) c exponent))
                (multiply (stored data (K2 ''fits'' ''projected_temperature''))))"
    using assms
    by (simp add: supplied_content_def counts_def pp_def pe_def data_item_def after_def split_def)
  have exact: "counts data = Inr (Finite (of_int (i * j * k)), [])"
    if "stored data (K2 ''fits'' ''flux'') = Finite (of_int i)"
      and "stored data (K2 ''fits'' ''pixel'') = Finite (of_int j)"
      and "t = Finite (of_int k)"
      and "i \<noteq> 0" "j \<noteq> 0" "k \<noteq> 0" "\<bar>i * j * k\<bar> < 2 ^ 53" for i j k
    using counts_integers [of data k i j] assms that by simp
  show ?thesis
    using composed exact by blast
qed

theorem derived_fields_compute_witness:
  "get_field_parameter sample_data ''exposure_time'' = Some (Finite 4)
   \<and> stored sample_data (K2 ''fits'' ''flux'') = Finite 4
   \<and> stored sample_data (K2 ''fits'' ''pixel'') = Finite 4
   \<and> counts sample_data = Inr (Finite 64, [])
   \<and> pp sample_data = Inr (Finite 32, [])"
proof -
  have t: "get_field_parameter sample_data ''exposure_time'' = Some (Finite 4)"
    by (simp add: get_field_parameter_def sample_data_def)
  have "counts sample_data = Inr (Finite (of_int (4 * 4 * 4)), [])"
    by (rule derived_fields_compute [OF t, THEN conjunct2, THEN conjunct2, THEN conjunct2,
          THEN conjunct2, rule_format])
       (simp add: sample_data_def)
  then have c: "counts sample_data = Inr (Finite 64, [])"
    by simp
  show ?thesis
    using t c pp_sample by (simp add: sample_data_def)
qed

text \<open>
  Positive counts do not make \<^verbatim>\<open>_pe\<close> finite: a large temperature times a large power
  overflows.
\<close>

lemma pe_overflows:
  assumes "counts data = Inr (Finite a, w)" and "0 < a"
    and "platform_pow data a exponent = Finite (10 ^ 10)"
    and "stored data (K2 ''fits'' ''projected_temperature'') = Finite (10 ^ 300)"
  shows "pe data = Inr (Infinite False, w @ [Overflow])"
  using assms multiply_overflows
  by (simp add: pe_def data_item_def after_def np_power_def)

text \<open>
  Counts that are zero though no factor is: the product of two faint items underflows.
\<close>

lemma pe_underflows:
  "counts faint_data = Inr (Zero False, []) \<and> pe faint_data = Inr (Infinite False, [DivideByZero])"
  by code_simp




end
